theory Spec2Isabelle
  imports Complex_Main
begin

section \<open>Tensors, errors and the linear read-out\<close>

text \<open>
  The notebooks of the repository glue three libraries together: a domain library
  (\<^verbatim>\<open>toponetx\<close>), a layer library (\<^verbatim>\<open>topomodelx\<close>) and the tensor
  framework (\<^verbatim>\<open>torch\<close>). What the notebook cells themselves do is modelled
  function by function below. Of the libraries only the behaviour the cells rely on is
  modelled, each time under a heading that says so; the message-passing layers are
  never modelled: every function that calls a layer takes the layer's call as an
  argument.

  A tensor of two dimensions is its element type, its storage layout, its number of
  columns and its rows. The number of rows is the length of the row list, so a tensor
  of shape \<open>(0, c)\<close> still knows \<open>c\<close>. Entries are real numbers: the rounding of
  float32 arithmetic is not modelled, so no statement below rests on the order in which
  the code adds, and where a statement compares sums it keeps the order of the code.
  The same type stands for a sparse matrix of the domain library, for the dense array
  \<^verbatim>\<open>todense()\<close> makes of it, and for a tensor of the framework, strided or
  sparse: the layout says which, and the rows are the values in every case.
\<close>

datatype dtype = Float32 | Float64 | Int64

datatype layout = Scipy_sparse | Numpy_dense | Strided | Sparse_coo

record tensor =
  dtype :: dtype
  layout :: layout
  n_cols :: nat
  entries :: "real list list"

definition n_rows :: "tensor \<Rightarrow> nat" where
  "n_rows t = length (entries t)"

definition shape :: "tensor \<Rightarrow> nat \<times> nat" where
  "shape t = (n_rows t, n_cols t)"

text \<open>
  The exceptions the cells can meet: a local variable read before it is bound, the
  tensor framework's \<^verbatim>\<open>RuntimeError\<close> for operands whose shapes or element types
  do not fit, \<^verbatim>\<open>ValueError\<close> for an argument a library refuses, and Python's
  \<^verbatim>\<open>ZeroDivisionError\<close>. \<^verbatim>\<open>ConfigurationError\<close> is the name the
  specification gives to a refused configuration; it is here so that its absence can
  be stated: no cell, and nothing modelled of a library, raises it.
\<close>

datatype error =
  UnboundLocalError string | RuntimeError | ValueError | ZeroDivisionError | ConfigurationError

text \<open>
  A tensor of one dimension, as \<^verbatim>\<open>torch.mean(x, dim=0)\<close> returns it. An entry is
  \<open>None\<close> where the framework holds \<^verbatim>\<open>nan\<close>: the mean over zero rows.
\<close>

type_synonym tensor1 = "real option list"

definition fadd :: "real option \<Rightarrow> real option \<Rightarrow> real option" where
  "fadd a b = (case a of None \<Rightarrow> None
     | Some x \<Rightarrow> (case b of None \<Rightarrow> None | Some y \<Rightarrow> Some (x + y)))"

definition column :: "tensor \<Rightarrow> nat \<Rightarrow> real list" where
  "column t j = map (\<lambda>r. r ! j) (entries t)"

definition column_mean :: "tensor \<Rightarrow> nat \<Rightarrow> real option" where
  "column_mean t j =
     (if entries t = [] then None else Some (sum_list (column t j) / real (n_rows t)))"

text \<open>
  \<^verbatim>\<open>torch.mean(x, dim=0)\<close>: one mean per column; an integer tensor is refused.
\<close>

definition mean_dim0 :: "tensor \<Rightarrow> error + tensor1" where
  "mean_dim0 t =
     (if dtype t = Int64 then Inl RuntimeError
      else Inr (map (column_mean t) [0..<n_cols t]))"

text \<open>
  \<^verbatim>\<open>a + b\<close> on tensors of one dimension: element by element, a tensor of length one
  is broadcast, any other pair of different lengths is refused.
\<close>

definition tensor1_add :: "tensor1 \<Rightarrow> tensor1 \<Rightarrow> error + tensor1" where
  "tensor1_add u v =
     (if length u = length v then Inr (map2 fadd u v)
      else if length u = 1 then Inr (map (fadd (hd u)) v)
      else if length v = 1 then Inr (map (\<lambda>a. fadd a (hd v)) u)
      else Inl RuntimeError)"

text \<open>
  \<^verbatim>\<open>torch.nn.Linear(in_features, out_features)\<close>: a weight of shape
  \<open>(out_features, in_features)\<close> and a bias of length \<open>out_features\<close>, both of type
  float32. The initial values are drawn at random by the framework; here the
  constructor takes them as arguments.
\<close>

record Linear =
  in_features :: nat
  out_features :: nat
  weight :: "real list list"
  bias :: "real list"

definition Linear :: "nat \<Rightarrow> nat \<Rightarrow> (nat \<Rightarrow> nat \<Rightarrow> real) \<Rightarrow> (nat \<Rightarrow> real) \<Rightarrow> Linear" where
  "Linear i out w0 b0 =
     \<lparr>in_features = i, out_features = out,
      weight = map (\<lambda>k. map (w0 k) [0..<i]) [0..<out],
      bias = map b0 [0..<out]\<rparr>"

definition dot :: "real list \<Rightarrow> real list \<Rightarrow> real" where
  "dot u v = sum_list (map2 (*) u v)"

text \<open>
  Calling a linear layer on \<open>x\<close>: \<open>x W\<^sup>T + b\<close>. The framework raises
  \<^verbatim>\<open>RuntimeError\<close> when the width of \<open>x\<close> is not \<open>in_features\<close> or when \<open>x\<close> is
  not float32 like the weight.
\<close>

definition Linear_forward :: "Linear \<Rightarrow> tensor \<Rightarrow> error + tensor" where
  "Linear_forward l x =
     (if n_cols x \<noteq> in_features l \<or> dtype x \<noteq> Float32 then Inl RuntimeError
      else Inr \<lparr>dtype = Float32, layout = Strided, n_cols = out_features l,
                entries = map (\<lambda>r. map (\<lambda>k. dot r (weight l ! k) + bias l ! k)
                                       [0..<out_features l]) (entries x)\<rparr>)"

section \<open>The domain library and the neighborhood adapter\<close>

subsection \<open>Simplicial complexes\<close>








text \<open>
  A matrix of the library: \<open>r\<close> rows and \<open>c\<close> columns, element type \<open>d\<close>, entry
  \<open>val i j\<close>. The element type and the entries are the library's, so the functions
  below take them as arguments; the shape is what the notebooks' own text states
  (\<open>B\<^sub>1\<close> is nodes by edges, \<open>B\<^sub>2\<close> is edges by faces, \<open>A\<^sub>0\<close> is nodes by nodes).
\<close>

definition matrix :: "dtype \<Rightarrow> (nat \<Rightarrow> nat \<Rightarrow> real) \<Rightarrow> nat \<Rightarrow> nat \<Rightarrow> tensor" where
  "matrix d val r c =
     \<lparr>dtype = d, layout = Scipy_sparse, n_cols = c,
      entries = map (\<lambda>i. map (val i) [0..<c]) [0..<r]\<rparr>"








subsection \<open>Cell complexes\<close>

text \<open>
  \<^verbatim>\<open>CellComplex(cells)\<close> takes a Python list whose items are nodes (integers) or
  lists of nodes. A list of two nodes is an edge; a longer list is a 2-cell, given by
  the cycle of its nodes, and the library adds the edges of that cycle to the complex.
  The graph underneath is undirected and has no parallel edges. A list of one node is
  taken as that node. The 2-cell of the notebook is regular (no node twice in its
  cycle); what the library does with another kind of cell is not modelled.
\<close>

datatype cell_item = Node int | Cell "int list"

record cell_complex =
  nodes :: "int list"
  edges :: "(int \<times> int) list"
  cells :: "int list list"

definition add_node :: "int \<Rightarrow> cell_complex \<Rightarrow> cell_complex" where
  "add_node v cx = (if v \<in> set (nodes cx) then cx else cx\<lparr>nodes := nodes cx @ [v]\<rparr>)"

definition add_edge :: "int \<times> int \<Rightarrow> cell_complex \<Rightarrow> cell_complex" where
  "add_edge e cx =
     (let cx' = add_node (snd e) (add_node (fst e) cx)
      in if e \<in> set (edges cx') \<or> (snd e, fst e) \<in> set (edges cx') then cx'
         else cx'\<lparr>edges := edges cx' @ [e]\<rparr>)"

text \<open>The boundary of a 2-cell: consecutive nodes of the cycle, the last with the first.\<close>

definition boundary :: "int list \<Rightarrow> (int \<times> int) list" where
  "boundary c = zip c (rotate1 c)"

definition add_cell :: "int list \<Rightarrow> cell_complex \<Rightarrow> cell_complex" where
  "add_cell c cx =
     (if length c = 2 then add_edge (c ! 0, c ! 1) cx
      else if length c = 1 then add_node (c ! 0) cx
      else (let cx' = fold add_edge (boundary c) cx in cx'\<lparr>cells := cells cx' @ [c]\<rparr>))"

definition add_item :: "cell_item \<Rightarrow> cell_complex \<Rightarrow> cell_complex" where
  "add_item item cx = (case item of Node v \<Rightarrow> add_node v cx | Cell c \<Rightarrow> add_cell c cx)"

definition CellComplex :: "cell_item list \<Rightarrow> cell_complex" where
  "CellComplex items = fold add_item items \<lparr>nodes = [], edges = [], cells = []\<rparr>"

text \<open>
  \<^verbatim>\<open>complex.incidence_matrix(rank=2)\<close> is edges by 2-cells and
  \<^verbatim>\<open>complex.adjacency_matrix(rank=0)\<close> is nodes by nodes; the notebook asks for no
  other rank.
\<close>

definition cc_incidence_matrix_2 ::
  "dtype \<Rightarrow> (nat \<Rightarrow> nat \<Rightarrow> real) \<Rightarrow> cell_complex \<Rightarrow> tensor" where
  "cc_incidence_matrix_2 d val cx = matrix d val (length (edges cx)) (length (cells cx))"

definition cc_adjacency_matrix_0 ::
  "dtype \<Rightarrow> (nat \<Rightarrow> nat \<Rightarrow> real) \<Rightarrow> cell_complex \<Rightarrow> tensor" where
  "cc_adjacency_matrix_0 d val cx = matrix d val (length (nodes cx)) (length (nodes cx))"

subsection \<open>Conversion to tensors\<close>

text \<open>
  \<^verbatim>\<open>M.T\<close>, \<^verbatim>\<open>M.todense()\<close>, \<^verbatim>\<open>torch.from_numpy(a)\<close>, \<^verbatim>\<open>t.to_sparse()\<close> and
  \<^verbatim>\<open>t.float()\<close>. The transpose of a sparse matrix is a sparse matrix with rows and
  columns exchanged; \<^verbatim>\<open>todense()\<close> gives the dense array of the same values;
  \<^verbatim>\<open>from_numpy\<close> gives the strided tensor that shares the array's memory, so its
  element type is the array's; \<^verbatim>\<open>to_sparse()\<close> gives the sparse tensor of the
  same values; \<^verbatim>\<open>float()\<close> casts to float32. None of them is passed anything
  but what the notebooks pass, so what they do with another layout is not modelled.
\<close>

definition T :: "tensor \<Rightarrow> tensor" where
  "T m = \<lparr>dtype = dtype m, layout = layout m, n_cols = n_rows m,
          entries = map (\<lambda>j. map (\<lambda>r. r ! j) (entries m)) [0..<n_cols m]\<rparr>"

definition todense :: "tensor \<Rightarrow> tensor" where
  "todense m = m\<lparr>layout := Numpy_dense\<rparr>"

definition from_numpy :: "tensor \<Rightarrow> tensor" where
  "from_numpy a = a\<lparr>layout := Strided\<rparr>"

definition to_sparse :: "tensor \<Rightarrow> tensor" where
  "to_sparse t = t\<lparr>layout := Sparse_coo\<rparr>"

definition float :: "tensor \<Rightarrow> tensor" where
  "float t = t\<lparr>dtype := Float32\<rparr>"


text \<open>
  The conversion of the ConvCXN notebook:
  \<^verbatim>\<open>torch.from_numpy(m.todense()).to_sparse().float()\<close>.
\<close>

definition convcxn_to_tensor :: "tensor \<Rightarrow> tensor" where
  "convcxn_to_tensor m = float (to_sparse (from_numpy (todense m)))"

text \<open>
  The signals: \<^verbatim>\<open>torch.tensor([[1.0, ...], ...])\<close> and
  \<^verbatim>\<open>torch.Tensor(np.random.rand(n, c))\<close> both give float32 tensors.
\<close>

definition torch_tensor :: "nat \<Rightarrow> real list list \<Rightarrow> tensor" where
  "torch_tensor c rows = \<lparr>dtype = Float32, layout = Strided, n_cols = c, entries = rows\<rparr>"

section \<open>The stacked classifiers\<close>

subsection \<open>ConvCXN\<close>

text \<open>
  \<^verbatim>\<open>ConvCXNLayer(in_channels_0=..., in_channels_1=..., in_channels_2=...)\<close>: the
  layer object as the notebook configures it. Its learnable values are the layer
  library's; \<open>cxn_params\<close> stands for them.
\<close>

record 'w ConvCXNLayer =
  in_channels_0 :: nat
  in_channels_1 :: nat
  in_channels_2 :: nat
  cxn_params :: 'w

record 'w ConvCXN =
  cxn_layers :: "'w ConvCXNLayer list"
  lin_0 :: Linear
  lin_1 :: Linear
  lin_2 :: Linear

text \<open>
  \<^verbatim>\<open>ConvCXN.__init__\<close>: \<open>range(n_layers)\<close> is empty for \<open>n_layers \<le> 0\<close>. The
  \<open>k\<close>-th layer gets its own initial values \<open>init k\<close>.
\<close>

definition ConvCXN_init ::
  "(nat \<Rightarrow> 'w) \<Rightarrow> (nat \<Rightarrow> nat \<Rightarrow> nat \<Rightarrow> real) \<Rightarrow> (nat \<Rightarrow> nat \<Rightarrow> real) \<Rightarrow>
   nat \<Rightarrow> nat \<Rightarrow> nat \<Rightarrow> nat \<Rightarrow> int \<Rightarrow> 'w ConvCXN" where
  "ConvCXN_init init w0 b0 in_ch_0 in_ch_1 in_ch_2 num_classes n_layers =
     \<lparr>cxn_layers = map (\<lambda>k. \<lparr>in_channels_0 = in_ch_0, in_channels_1 = in_ch_1,
                              in_channels_2 = in_ch_2, cxn_params = init k\<rparr>)
                       [0..<nat n_layers],
      lin_0 = Linear in_ch_0 num_classes (w0 0) (b0 0),
      lin_1 = Linear in_ch_1 num_classes (w0 1) (b0 1),
      lin_2 = Linear in_ch_2 num_classes (w0 2) (b0 2)\<rparr>"

text \<open>
  The call of one layer, \<^verbatim>\<open>layer(x_0, x_1, neighborhood_0_to_0, neighborhood_1_to_2)\<close>,
  belongs to the layer library: it returns three tensors or raises.
\<close>

type_synonym 'w cxn_call =
  "'w ConvCXNLayer \<Rightarrow> tensor \<Rightarrow> tensor \<Rightarrow> tensor \<Rightarrow> tensor \<Rightarrow> error + (tensor \<times> tensor \<times> tensor)"

text \<open>
  The loop of \<^verbatim>\<open>ConvCXN.forward\<close> over \<^verbatim>\<open>self.layers\<close>. The local variable
  \<^verbatim>\<open>x_2\<close> is not a parameter of \<^verbatim>\<open>forward\<close>: it is bound by the first pass of
  the loop, so it is carried as an option.
\<close>

fun ConvCXN_loop ::
  "'w cxn_call \<Rightarrow> 'w ConvCXNLayer list \<Rightarrow> tensor \<Rightarrow> tensor \<Rightarrow>
   tensor \<Rightarrow> tensor \<Rightarrow> tensor option \<Rightarrow> error + (tensor \<times> tensor \<times> tensor option)" where
  "ConvCXN_loop call [] n00 n12 x_0 x_1 x_2 = Inr (x_0, x_1, x_2)"
| "ConvCXN_loop call (layer # rest) n00 n12 x_0 x_1 x_2 =
     (case call layer x_0 x_1 n00 n12 of
        Inl e \<Rightarrow> Inl e
      | Inr (y_0, y_1, y_2) \<Rightarrow> ConvCXN_loop call rest n00 n12 y_0 y_1 (Some y_2))"

text \<open>
  The three read-outs, in the order of the source: \<^verbatim>\<open>lin_0\<close>, \<^verbatim>\<open>lin_1\<close>, then
  the read of \<^verbatim>\<open>x_2\<close> and \<^verbatim>\<open>lin_2\<close>.
\<close>

definition ConvCXN_logits ::
  "'w cxn_call \<Rightarrow> 'w ConvCXN \<Rightarrow> tensor \<Rightarrow> tensor \<Rightarrow> tensor \<Rightarrow> tensor \<Rightarrow>
   error + (tensor \<times> tensor \<times> tensor)" where
  "ConvCXN_logits call self x_0 x_1 n00 n12 =
     (case ConvCXN_loop call (cxn_layers self) n00 n12 x_0 x_1 None of
        Inl e \<Rightarrow> Inl e
      | Inr (x_0, x_1, x_2) \<Rightarrow>
          (case Linear_forward (lin_0 self) x_0 of
             Inl e \<Rightarrow> Inl e
           | Inr x_0 \<Rightarrow>
               (case Linear_forward (lin_1 self) x_1 of
                  Inl e \<Rightarrow> Inl e
                | Inr x_1 \<Rightarrow>
                    (case x_2 of
                       None \<Rightarrow> Inl (UnboundLocalError ''x_2'')
                     | Some x_2 \<Rightarrow>
                         (case Linear_forward (lin_2 self) x_2 of
                            Inl e \<Rightarrow> Inl e
                          | Inr x_2 \<Rightarrow> Inr (x_0, x_1, x_2))))))"

text \<open>
  The return expression:
  \<^verbatim>\<open>torch.mean(x_2, dim=0) + torch.mean(x_1, dim=0) + torch.mean(x_0, dim=0)\<close>,
  the means evaluated left to right, the sum associated to the left.
\<close>

definition aggregate :: "tensor \<Rightarrow> tensor \<Rightarrow> tensor \<Rightarrow> error + tensor1" where
  "aggregate x_0 x_1 x_2 =
     (case mean_dim0 x_2 of
        Inl e \<Rightarrow> Inl e
      | Inr m_2 \<Rightarrow>
          (case mean_dim0 x_1 of
             Inl e \<Rightarrow> Inl e
           | Inr m_1 \<Rightarrow>
               (case tensor1_add m_2 m_1 of
                  Inl e \<Rightarrow> Inl e
                | Inr s \<Rightarrow>
                    (case mean_dim0 x_0 of
                       Inl e \<Rightarrow> Inl e
                     | Inr m_0 \<Rightarrow> tensor1_add s m_0))))"

definition ConvCXN_forward ::
  "'w cxn_call \<Rightarrow> 'w ConvCXN \<Rightarrow> tensor \<Rightarrow> tensor \<Rightarrow> tensor \<Rightarrow> tensor \<Rightarrow> error + tensor1" where
  "ConvCXN_forward call self x_0 x_1 n00 n12 =
     (case ConvCXN_logits call self x_0 x_1 n00 n12 of
        Inl e \<Rightarrow> Inl e
      | Inr (x_0, x_1, x_2) \<Rightarrow> aggregate x_0 x_1 x_2)"

subsection \<open>HSN\<close>

text \<open>\<^verbatim>\<open>HSNLayer(channels=channels)\<close> and the class \<^verbatim>\<open>HSN\<close> of the notebook.\<close>

record 'w HSNLayer =
  hsn_channels :: nat
  hsn_params :: 'w

record 'w HSN =
  hsn_layers :: "'w HSNLayer list"
  hsn_linear :: Linear

definition HSN_init ::
  "(nat \<Rightarrow> 'w) \<Rightarrow> (nat \<Rightarrow> nat \<Rightarrow> real) \<Rightarrow> (nat \<Rightarrow> real) \<Rightarrow> nat \<Rightarrow> int \<Rightarrow> 'w HSN" where
  "HSN_init init w0 b0 channels n_layers =
     \<lparr>hsn_layers = map (\<lambda>k. \<lparr>hsn_channels = channels, hsn_params = init k\<rparr>) [0..<nat n_layers],
      hsn_linear = Linear channels 1 w0 b0\<rparr>"

text \<open>The layer library's call \<^verbatim>\<open>layer(x_0, incidence_1, adjacency_0)\<close>.\<close>

type_synonym 'w hsn_call = "'w HSNLayer \<Rightarrow> tensor \<Rightarrow> tensor \<Rightarrow> tensor \<Rightarrow> error + tensor"

fun HSN_loop ::
  "'w hsn_call \<Rightarrow> 'w HSNLayer list \<Rightarrow> tensor \<Rightarrow> tensor \<Rightarrow> tensor \<Rightarrow> error + tensor" where
  "HSN_loop call [] incidence_1 adjacency_0 x_0 = Inr x_0"
| "HSN_loop call (layer # rest) incidence_1 adjacency_0 x_0 =
     (case call layer x_0 incidence_1 adjacency_0 of
        Inl e \<Rightarrow> Inl e
      | Inr y_0 \<Rightarrow> HSN_loop call rest incidence_1 adjacency_0 y_0)"

definition HSN_forward ::
  "'w hsn_call \<Rightarrow> 'w HSN \<Rightarrow> tensor \<Rightarrow> tensor \<Rightarrow> tensor \<Rightarrow> error + tensor" where
  "HSN_forward call self x_0 incidence_1 adjacency_0 =
     (case HSN_loop call (hsn_layers self) incidence_1 adjacency_0 x_0 of
        Inl e \<Rightarrow> Inl e
      | Inr x_0 \<Rightarrow> Linear_forward (hsn_linear self) x_0)"

subsection \<open>TemplateNN\<close>

text \<open>
  \<^verbatim>\<open>TemplateLayer(in_channels=channels_face, intermediate_channels=channels_edge,
  out_channels=channels_face)\<close> and the class \<^verbatim>\<open>TemplateNN\<close>.
\<close>

record 'w TemplateLayer =
  in_channels :: nat
  intermediate_channels :: nat
  out_channels :: nat
  tnn_params :: 'w

record 'w TemplateNN =
  tnn_layers :: "'w TemplateLayer list"
  tnn_linear :: Linear


type_synonym 'w tnn_call = "'w TemplateLayer \<Rightarrow> tensor \<Rightarrow> tensor \<Rightarrow> error + tensor"

fun TemplateNN_loop ::
  "'w tnn_call \<Rightarrow> 'w TemplateLayer list \<Rightarrow> tensor \<Rightarrow> tensor \<Rightarrow> error + tensor" where
  "TemplateNN_loop call [] incidence_2_torch x_2 = Inr x_2"
| "TemplateNN_loop call (layer # rest) incidence_2_torch x_2 =
     (case call layer x_2 incidence_2_torch of
        Inl e \<Rightarrow> Inl e
      | Inr y_2 \<Rightarrow> TemplateNN_loop call rest incidence_2_torch y_2)"

definition TemplateNN_forward ::
  "'w tnn_call \<Rightarrow> 'w TemplateNN \<Rightarrow> tensor \<Rightarrow> tensor \<Rightarrow> error + tensor" where
  "TemplateNN_forward call self x_2 incidence_2_torch =
     (case TemplateNN_loop call (tnn_layers self) incidence_2_torch x_2 of
        Inl e \<Rightarrow> Inl e
      | Inr x_2 \<Rightarrow> Linear_forward (tnn_linear self) x_2)"

subsection \<open>Channel widths along a stack\<close>








subsection \<open>Construction as a call that can raise\<close>










subsection \<open>Forward with a layer library that has state of its own\<close>

text \<open>
  Neither \<^verbatim>\<open>forward\<close> assigns an attribute of \<^verbatim>\<open>self\<close> or reads anything but
  its arguments and \<^verbatim>\<open>self\<close>; the only code they run that could depend on anything
  else is the layer library's call. Here that call reads and writes a state \<open>'s\<close> of
  the library (a random generator, say), threaded through \<^verbatim>\<open>forward\<close>.
\<close>

type_synonym ('w, 's) hsn_call_st =
  "'w HSNLayer \<Rightarrow> tensor \<Rightarrow> tensor \<Rightarrow> tensor \<Rightarrow> 's \<Rightarrow> (error + tensor) \<times> 's"

fun HSN_loop_st ::
  "('w, 's) hsn_call_st \<Rightarrow> 'w HSNLayer list \<Rightarrow> tensor \<Rightarrow> tensor \<Rightarrow> tensor \<Rightarrow> 's \<Rightarrow>
   (error + tensor) \<times> 's" where
  "HSN_loop_st call [] incidence_1 adjacency_0 x_0 s = (Inr x_0, s)"
| "HSN_loop_st call (layer # rest) incidence_1 adjacency_0 x_0 s =
     (case call layer x_0 incidence_1 adjacency_0 s of
        (Inl e, s') \<Rightarrow> (Inl e, s')
      | (Inr y_0, s') \<Rightarrow> HSN_loop_st call rest incidence_1 adjacency_0 y_0 s')"

definition HSN_forward_st ::
  "('w, 's) hsn_call_st \<Rightarrow> 'w HSN \<Rightarrow> tensor \<Rightarrow> tensor \<Rightarrow> tensor \<Rightarrow> 's \<Rightarrow>
   (error + tensor) \<times> 's" where
  "HSN_forward_st call self x_0 incidence_1 adjacency_0 s =
     (case HSN_loop_st call (hsn_layers self) incidence_1 adjacency_0 x_0 s of
        (Inl e, s') \<Rightarrow> (Inl e, s')
      | (Inr x_0, s') \<Rightarrow> (Linear_forward (hsn_linear self) x_0, s'))"

type_synonym ('w, 's) cxn_call_st =
  "'w ConvCXNLayer \<Rightarrow> tensor \<Rightarrow> tensor \<Rightarrow> tensor \<Rightarrow> tensor \<Rightarrow> 's \<Rightarrow>
   (error + (tensor \<times> tensor \<times> tensor)) \<times> 's"

fun ConvCXN_loop_st ::
  "('w, 's) cxn_call_st \<Rightarrow> 'w ConvCXNLayer list \<Rightarrow> tensor \<Rightarrow> tensor \<Rightarrow>
   tensor \<Rightarrow> tensor \<Rightarrow> tensor option \<Rightarrow> 's \<Rightarrow>
   (error + (tensor \<times> tensor \<times> tensor option)) \<times> 's" where
  "ConvCXN_loop_st call [] n00 n12 x_0 x_1 x_2 s = (Inr (x_0, x_1, x_2), s)"
| "ConvCXN_loop_st call (layer # rest) n00 n12 x_0 x_1 x_2 s =
     (case call layer x_0 x_1 n00 n12 s of
        (Inl e, s') \<Rightarrow> (Inl e, s')
      | (Inr (y_0, y_1, y_2), s') \<Rightarrow> ConvCXN_loop_st call rest n00 n12 y_0 y_1 (Some y_2) s')"

text \<open>The part of \<^verbatim>\<open>ConvCXN.forward\<close> after the loop: read-outs and aggregation.\<close>

definition ConvCXN_readout ::
  "'w ConvCXN \<Rightarrow> tensor \<Rightarrow> tensor \<Rightarrow> tensor option \<Rightarrow> error + tensor1" where
  "ConvCXN_readout self x_0 x_1 x_2 =
     (case Linear_forward (lin_0 self) x_0 of
        Inl e \<Rightarrow> Inl e
      | Inr x_0 \<Rightarrow>
          (case Linear_forward (lin_1 self) x_1 of
             Inl e \<Rightarrow> Inl e
           | Inr x_1 \<Rightarrow>
               (case x_2 of
                  None \<Rightarrow> Inl (UnboundLocalError ''x_2'')
                | Some x_2 \<Rightarrow>
                    (case Linear_forward (lin_2 self) x_2 of
                       Inl e \<Rightarrow> Inl e
                     | Inr x_2 \<Rightarrow> aggregate x_0 x_1 x_2))))"

definition ConvCXN_forward_st ::
  "('w, 's) cxn_call_st \<Rightarrow> 'w ConvCXN \<Rightarrow> tensor \<Rightarrow> tensor \<Rightarrow> tensor \<Rightarrow> tensor \<Rightarrow> 's \<Rightarrow>
   (error + tensor1) \<times> 's" where
  "ConvCXN_forward_st call self x_0 x_1 n00 n12 s =
     (case ConvCXN_loop_st call (cxn_layers self) n00 n12 x_0 x_1 None s of
        (Inl e, s') \<Rightarrow> (Inl e, s')
      | (Inr (x_0, x_1, x_2), s') \<Rightarrow> (ConvCXN_readout self x_0 x_1 x_2, s'))"

section \<open>Which parameters the optimizer gets\<close>

text \<open>
  \<^verbatim>\<open>torch.nn.Module\<close> keeps a registry. Assigning an attribute registers the value
  when it is a \<^verbatim>\<open>Parameter\<close> or a \<^verbatim>\<open>Module\<close>; any other value, a Python list of
  modules among them, is stored as a plain attribute. \<^verbatim>\<open>parameters()\<close> yields the
  module's registered parameters and then, recursively, those of its registered
  submodules. A parameter is identified by a number, given out by the constructor that
  creates it.
\<close>

datatype pyobj = Parameter nat | Module "(string \<times> pyobj) list" | PyList "pyobj list"

definition setattr :: "pyobj \<Rightarrow> string \<Rightarrow> pyobj \<Rightarrow> pyobj" where
  "setattr self name v =
     (case self of Module attrs \<Rightarrow> Module (attrs @ [(name, v)]) | _ \<Rightarrow> self)"

fun parameters :: "pyobj \<Rightarrow> nat list" and registered :: "(string \<times> pyobj) list \<Rightarrow> nat list" where
  "parameters (Parameter p) = []"
| "parameters (PyList xs) = []"
| "parameters (Module attrs) =
     concat (map (\<lambda>a. case snd a of Parameter p \<Rightarrow> [p] | _ \<Rightarrow> []) attrs) @ registered attrs"
| "registered [] = []"
| "registered (a # rest) =
     (case snd a of Module sub \<Rightarrow> parameters (Module sub) | _ \<Rightarrow> []) @ registered rest"

text \<open>
  \<^verbatim>\<open>torch.nn.Linear\<close> registers its weight and its bias. A constructor takes the
  next free parameter number and returns the object with the next free number after it.
\<close>

definition Linear_module :: "nat \<Rightarrow> pyobj \<times> nat" where
  "Linear_module p =
     (setattr (setattr (Module []) ''weight'' (Parameter p)) ''bias'' (Parameter (p + 1)), p + 2)"

text \<open>
  The loop \<^verbatim>\<open>for _ in range(n_layers): layers.append(Layer(...))\<close>, the layer's
  constructor being the layer library's.
\<close>

fun make_layers :: "(nat \<Rightarrow> pyobj \<times> nat) \<Rightarrow> nat \<Rightarrow> pyobj list \<Rightarrow> nat \<Rightarrow> pyobj list \<times> nat" where
  "make_layers Layer 0 layers p = (layers, p)"
| "make_layers Layer (Suc n) layers p =
     (case Layer p of (layer, p') \<Rightarrow> make_layers Layer n (layers @ [layer]) p')"

text \<open>
  \<^verbatim>\<open>HSN.__init__\<close>: the layers are built, then \<^verbatim>\<open>self.linear\<close> is assigned, then
  \<^verbatim>\<open>self.layers = layers\<close>, a Python list.
\<close>

definition HSN_module :: "(nat \<Rightarrow> pyobj \<times> nat) \<Rightarrow> int \<Rightarrow> nat \<Rightarrow> pyobj" where
  "HSN_module HSNLayer n_layers p =
     (case make_layers HSNLayer (nat n_layers) [] p of
        (layers, p1) \<Rightarrow>
          (case Linear_module p1 of
             (lin, p2) \<Rightarrow>
               setattr (setattr (Module []) ''linear'' lin) ''layers'' (PyList layers)))"

text \<open>\<^verbatim>\<open>TemplateNN.__init__\<close>: \<^verbatim>\<open>self.layers = layers\<close>, then \<^verbatim>\<open>self.linear\<close>.\<close>

definition TemplateNN_module :: "(nat \<Rightarrow> pyobj \<times> nat) \<Rightarrow> int \<Rightarrow> nat \<Rightarrow> pyobj" where
  "TemplateNN_module TemplateLayer n_layers p =
     (case make_layers TemplateLayer (nat n_layers) [] p of
        (layers, p1) \<Rightarrow>
          (case Linear_module p1 of
             (lin, p2) \<Rightarrow>
               setattr (setattr (Module []) ''layers'' (PyList layers)) ''linear'' lin))"

text \<open>
  \<^verbatim>\<open>ConvCXN.__init__\<close>: \<^verbatim>\<open>self.layers = layers\<close>, then \<^verbatim>\<open>self.lin_0\<close>,
  \<^verbatim>\<open>self.lin_1\<close>, \<^verbatim>\<open>self.lin_2\<close>.
\<close>

definition ConvCXN_module :: "(nat \<Rightarrow> pyobj \<times> nat) \<Rightarrow> int \<Rightarrow> nat \<Rightarrow> pyobj" where
  "ConvCXN_module ConvCXNLayer n_layers p =
     (case make_layers ConvCXNLayer (nat n_layers) [] p of
        (layers, p1) \<Rightarrow>
          (case Linear_module p1 of
             (l0, p2) \<Rightarrow>
               (case Linear_module p2 of
                  (l1, p3) \<Rightarrow>
                    (case Linear_module p3 of
                       (l2, p4) \<Rightarrow>
                         setattr (setattr (setattr (setattr (Module [])
                           ''layers'' (PyList layers)) ''lin_0'' l0) ''lin_1'' l1) ''lin_2'' l2))))"

text \<open>
  A layer of the library with one registered weight, for evaluating the constructors.
\<close>

definition one_weight_layer :: "nat \<Rightarrow> pyobj \<times> nat" where
  "one_weight_layer p = (setattr (Module []) ''weight'' (Parameter p), p + 1)"

section \<open>The training loops\<close>

subsection \<open>HSN: five epochs on one labelled signal\<close>




subsection \<open>ConvCXN: epochs over a training set, with a test pass every second epoch\<close>

datatype line = Epoch_line int real real | Test_line real

text \<open>
  The state of the training cell: the model, the optimizer, the three variables
  \<^verbatim>\<open>epoch_loss\<close>, \<^verbatim>\<open>num_samples\<close> and \<^verbatim>\<open>correct\<close>, and what has been
  printed. \<open>opt_steps\<close> counts the calls of \<^verbatim>\<open>opt.step()\<close>.
\<close>

record ('w, 'o) cell_state =
  model :: "'w ConvCXN"
  opt :: 'o
  opt_steps :: nat
  epoch_loss :: "real list"
  num_samples :: nat
  correct :: nat
  printed :: "line list"

text \<open>
  The framework's operations in the cell: the loss \<^verbatim>\<open>crit(y_hat, y)\<close>,
  \<^verbatim>\<open>y_hat.argmax()\<close>, and \<^verbatim>\<open>loss.backward(); opt.step()\<close>, which gives new
  values for the weights and biases of \<^verbatim>\<open>lin_0\<close>, \<^verbatim>\<open>lin_1\<close> and \<^verbatim>\<open>lin_2\<close>.
\<close>

type_synonym new_values = "real list list \<times> real list"

record ('w, 'o) torch_ops =
  crit :: "tensor1 \<Rightarrow> int \<Rightarrow> error + real"
  argmax :: "tensor1 \<Rightarrow> error + int"
  backward_step :: "'o \<Rightarrow> 'w ConvCXN \<Rightarrow> tensor \<Rightarrow> tensor \<Rightarrow> int \<Rightarrow> 'o \<times> new_values \<times> new_values \<times> new_values"

definition set_values :: "Linear \<Rightarrow> new_values \<Rightarrow> Linear" where
  "set_values l v = l\<lparr>weight := fst v, bias := snd v\<rparr>"

definition test_interval :: int where
  "test_interval = 2"

text \<open>The body of the loop over the training samples.\<close>

definition train_sample ::
  "('w, 'o) torch_ops \<Rightarrow> 'w cxn_call \<Rightarrow> tensor \<Rightarrow> tensor \<Rightarrow>
   tensor \<times> tensor \<times> int \<Rightarrow> ('w, 'o) cell_state \<Rightarrow> error + ('w, 'o) cell_state" where
  "train_sample ops call adjacency_0 incidence_2_t sample st =
     (case sample of (x_0, x_1, y) \<Rightarrow>
        (case ConvCXN_forward call (model st) (float x_0) (float x_1)
                (float adjacency_0) (float incidence_2_t) of
           Inl e \<Rightarrow> Inl e
         | Inr y_hat \<Rightarrow>
             (case crit ops y_hat y of
                Inl e \<Rightarrow> Inl e
              | Inr loss \<Rightarrow>
                  (case argmax ops y_hat of
                     Inl e \<Rightarrow> Inl e
                   | Inr k \<Rightarrow>
                       (case backward_step ops (opt st) (model st) x_0 x_1 y of
                          (opt', v0, v1, v2) \<Rightarrow>
                            Inr (st\<lparr>correct := correct st + (if k = y then 1 else 0),
                                    num_samples := num_samples st + 1,
                                    model := (model st)\<lparr>lin_0 := set_values (lin_0 (model st)) v0,
                                                        lin_1 := set_values (lin_1 (model st)) v1,
                                                        lin_2 := set_values (lin_2 (model st)) v2\<rparr>,
                                    opt := opt',
                                    opt_steps := opt_steps st + 1,
                                    epoch_loss := epoch_loss st @ [loss]\<rparr>))))))"

text \<open>
  \<^verbatim>\<open>for x_0, x_1, y in zip(x_0_train, x_1_train, labels_train)\<close>: the samples are
  the triples of the zip, which stops with the shortest list.
\<close>

definition zip3 :: "'a list \<Rightarrow> 'b list \<Rightarrow> 'c list \<Rightarrow> ('a \<times> 'b \<times> 'c) list" where
  "zip3 xs ys zs = zip xs (zip ys zs)"

fun train_pass ::
  "('w, 'o) torch_ops \<Rightarrow> 'w cxn_call \<Rightarrow> tensor \<Rightarrow> tensor \<Rightarrow>
   (tensor \<times> tensor \<times> int) list \<Rightarrow> ('w, 'o) cell_state \<Rightarrow> error + ('w, 'o) cell_state" where
  "train_pass ops call adjacency_0 incidence_2_t [] st = Inr st"
| "train_pass ops call adjacency_0 incidence_2_t (sample # rest) st =
     (case train_sample ops call adjacency_0 incidence_2_t sample st of
        Inl e \<Rightarrow> Inl e
      | Inr st' \<Rightarrow> train_pass ops call adjacency_0 incidence_2_t rest st')"

text \<open>
  The body of the loop over the test samples, under \<^verbatim>\<open>torch.no_grad()\<close>: the label
  is converted, the model is called on the signals as they are, the two counters move.
\<close>

definition test_sample ::
  "('w, 'o) torch_ops \<Rightarrow> 'w cxn_call \<Rightarrow> tensor \<Rightarrow> tensor \<Rightarrow>
   tensor \<times> tensor \<times> int \<Rightarrow> ('w, 'o) cell_state \<Rightarrow> error + ('w, 'o) cell_state" where
  "test_sample ops call adjacency_0 incidence_2_t sample st =
     (case sample of (x_0, x_1, y) \<Rightarrow>
        (case ConvCXN_forward call (model st) x_0 x_1 adjacency_0 incidence_2_t of
           Inl e \<Rightarrow> Inl e
         | Inr y_hat \<Rightarrow>
             (case argmax ops y_hat of
                Inl e \<Rightarrow> Inl e
              | Inr k \<Rightarrow>
                  Inr (st\<lparr>correct := correct st + (if k = y then 1 else 0),
                          num_samples := num_samples st + 1\<rparr>))))"

fun test_pass ::
  "('w, 'o) torch_ops \<Rightarrow> 'w cxn_call \<Rightarrow> tensor \<Rightarrow> tensor \<Rightarrow>
   (tensor \<times> tensor \<times> int) list \<Rightarrow> ('w, 'o) cell_state \<Rightarrow> error + ('w, 'o) cell_state" where
  "test_pass ops call adjacency_0 incidence_2_t [] st = Inr st"
| "test_pass ops call adjacency_0 incidence_2_t (sample # rest) st =
     (case test_sample ops call adjacency_0 incidence_2_t sample st of
        Inl e \<Rightarrow> Inl e
      | Inr st' \<Rightarrow> test_pass ops call adjacency_0 incidence_2_t rest st')"

text \<open>
  The evaluation phase: the block under \<^verbatim>\<open>if epoch_i % test_interval == 0\<close>. The
  counters are reset, the test samples are passed, the accuracy is a division by
  \<^verbatim>\<open>num_samples\<close> and is printed.
\<close>

definition evaluation ::
  "('w, 'o) torch_ops \<Rightarrow> 'w cxn_call \<Rightarrow> tensor \<Rightarrow> tensor \<Rightarrow>
   (tensor \<times> tensor \<times> int) list \<Rightarrow> ('w, 'o) cell_state \<Rightarrow> error + ('w, 'o) cell_state" where
  "evaluation ops call adjacency_0 incidence_2_t test st =
     (case test_pass ops call adjacency_0 incidence_2_t test (st\<lparr>num_samples := 0, correct := 0\<rparr>) of
        Inl e \<Rightarrow> Inl e
      | Inr st' \<Rightarrow>
          (if num_samples st' = 0 then Inl ZeroDivisionError
           else Inr (st'\<lparr>printed := printed st' @
                          [Test_line (real (correct st') / real (num_samples st'))]\<rparr>)))"

text \<open>
  \<^verbatim>\<open>np.mean(epoch_loss)\<close>. It is only evaluated after the division by
  \<^verbatim>\<open>num_samples\<close> has succeeded.
\<close>

definition np_mean :: "real list \<Rightarrow> real" where
  "np_mean xs = sum_list xs / real (length xs)"

text \<open>
  One pass of the loop over the epochs: the three variables are reset, the training
  samples are passed, the accuracy is a division by \<^verbatim>\<open>num_samples\<close>, the line
  of the epoch is printed, and on every second epoch the evaluation follows.
  \<^verbatim>\<open>model.train()\<close> sets a flag of the framework that nothing here reads.
\<close>

definition epoch ::
  "('w, 'o) torch_ops \<Rightarrow> 'w cxn_call \<Rightarrow> tensor \<Rightarrow> tensor \<Rightarrow>
   (tensor \<times> tensor \<times> int) list \<Rightarrow> (tensor \<times> tensor \<times> int) list \<Rightarrow>
   int \<Rightarrow> ('w, 'o) cell_state \<Rightarrow> error + ('w, 'o) cell_state" where
  "epoch ops call adjacency_0 incidence_2_t train test epoch_i st =
     (case train_pass ops call adjacency_0 incidence_2_t train
             (st\<lparr>epoch_loss := [], num_samples := 0, correct := 0\<rparr>) of
        Inl e \<Rightarrow> Inl e
      | Inr st1 \<Rightarrow>
          (if num_samples st1 = 0 then Inl ZeroDivisionError
           else
             (let st2 = st1\<lparr>printed := printed st1 @
                              [Epoch_line epoch_i (np_mean (epoch_loss st1))
                                 (real (correct st1) / real (num_samples st1))]\<rparr>
              in if epoch_i mod test_interval = 0
                 then evaluation ops call adjacency_0 incidence_2_t test st2
                 else Inr st2)))"

text \<open>\<^verbatim>\<open>for epoch_i in range(1, args.num_epochs + 1)\<close>.\<close>

fun epochs ::
  "('w, 'o) torch_ops \<Rightarrow> 'w cxn_call \<Rightarrow> tensor \<Rightarrow> tensor \<Rightarrow>
   (tensor \<times> tensor \<times> int) list \<Rightarrow> (tensor \<times> tensor \<times> int) list \<Rightarrow>
   int list \<Rightarrow> ('w, 'o) cell_state \<Rightarrow> error + ('w, 'o) cell_state" where
  "epochs ops call adjacency_0 incidence_2_t train test [] st = Inr st"
| "epochs ops call adjacency_0 incidence_2_t train test (epoch_i # rest) st =
     (case epoch ops call adjacency_0 incidence_2_t train test epoch_i st of
        Inl e \<Rightarrow> Inl e
      | Inr st' \<Rightarrow> epochs ops call adjacency_0 incidence_2_t train test rest st')"

definition training ::
  "('w, 'o) torch_ops \<Rightarrow> 'w cxn_call \<Rightarrow> tensor \<Rightarrow> tensor \<Rightarrow>
   (tensor \<times> tensor \<times> int) list \<Rightarrow> (tensor \<times> tensor \<times> int) list \<Rightarrow>
   int \<Rightarrow> 'w ConvCXN \<Rightarrow> 'o \<Rightarrow> error + ('w, 'o) cell_state" where
  "training ops call adjacency_0 incidence_2_t train test num_epochs m optimizer =
     epochs ops call adjacency_0 incidence_2_t train test [1..num_epochs]
       \<lparr>model = m, opt = optimizer, opt_steps = 0, epoch_loss = [], num_samples = 0,
        correct = 0, printed = []\<rparr>"

section \<open>What the notebooks rely on in the libraries\<close>


text \<open>
  The contract for a ConvCXN layer: from float32 signals on nodes and edges, with one
  row per column of the neighborhood they are multiplied by, it returns float32 signals
  on nodes, edges and faces, of widths \<open>in_channels_0\<close>, \<open>in_channels_1\<close> and
  \<open>in_channels_2\<close>.
\<close>

definition cxn_contract :: "'w cxn_call \<Rightarrow> tensor \<Rightarrow> tensor \<Rightarrow> bool" where
  "cxn_contract call n00 n12 =
     (\<forall>layer x_0 x_1.
        n_cols x_0 = in_channels_0 layer \<and> dtype x_0 = Float32 \<and> n_rows x_0 = n_cols n00 \<and>
        n_cols x_1 = in_channels_1 layer \<and> dtype x_1 = Float32 \<and> n_rows x_1 = n_cols n12 \<longrightarrow>
        (\<exists>y_0 y_1 y_2. call layer x_0 x_1 n00 n12 = Inr (y_0, y_1, y_2)
           \<and> n_cols y_0 = in_channels_0 layer \<and> dtype y_0 = Float32 \<and> n_rows y_0 = n_rows n00
           \<and> n_cols y_1 = in_channels_1 layer \<and> dtype y_1 = Float32 \<and> n_rows y_1 = n_rows x_1
           \<and> n_cols y_2 = in_channels_2 layer \<and> dtype y_2 = Float32 \<and> n_rows y_2 = n_rows n12))"

text \<open>
  The framework's contract for the loss and for \<^verbatim>\<open>argmax\<close>: the loss accepts a
  class index within the prediction's length, \<^verbatim>\<open>argmax\<close> accepts a non-empty tensor.
\<close>

definition ops_contract :: "('w, 'o) torch_ops \<Rightarrow> bool" where
  "ops_contract ops =
     ((\<forall>v y. 0 \<le> y \<and> y < int (length v) \<longrightarrow> (\<exists>l. crit ops v y = Inr l))
      \<and> (\<forall>v. v \<noteq> [] \<longrightarrow> (\<exists>k. argmax ops v = Inr k)))"

text \<open>
  The layer library's call gives the same result whatever state the library is in.
\<close>

definition hsn_call_deterministic :: "('w, 's) hsn_call_st \<Rightarrow> bool" where
  "hsn_call_deterministic call =
     (\<forall>layer x i a s s'. fst (call layer x i a s) = fst (call layer x i a s'))"

definition cxn_call_deterministic :: "('w, 's) cxn_call_st \<Rightarrow> bool" where
  "cxn_call_deterministic call =
     (\<forall>layer x_0 x_1 n00 n12 s s'.
        fst (call layer x_0 x_1 n00 n12 s) = fst (call layer x_0 x_1 n00 n12 s'))"

section \<open>Invariants of the models and the shapes of the samples\<close>


definition ConvCXN_ok :: "'w ConvCXN \<Rightarrow> nat \<Rightarrow> nat \<Rightarrow> nat \<Rightarrow> nat \<Rightarrow> bool" where
  "ConvCXN_ok self c0 c1 c2 k =
     (list_all (\<lambda>l. in_channels_0 l = c0 \<and> in_channels_1 l = c1 \<and> in_channels_2 l = c2)
        (cxn_layers self)
      \<and> cxn_layers self \<noteq> []
      \<and> in_features (lin_0 self) = c0 \<and> in_features (lin_1 self) = c1
      \<and> in_features (lin_2 self) = c2
      \<and> out_features (lin_0 self) = k \<and> out_features (lin_1 self) = k
      \<and> out_features (lin_2 self) = k)"

text \<open>
  A training sample fits the complex: a node signal and an edge signal with one row
  per column of their neighborhood, of widths \<open>c0\<close> and \<open>c1\<close>, and a label among the
  \<open>k\<close> classes. A test sample is passed without a cast, so its signals are float32.
\<close>

definition sample_ok ::
  "nat \<Rightarrow> nat \<Rightarrow> nat \<Rightarrow> tensor \<Rightarrow> tensor \<Rightarrow> tensor \<times> tensor \<times> int \<Rightarrow> bool" where
  "sample_ok c0 c1 k n00 n12 sample =
     (case sample of (x_0, x_1, y) \<Rightarrow>
        n_cols x_0 = c0 \<and> n_rows x_0 = n_cols n00 \<and> n_cols x_1 = c1 \<and> n_rows x_1 = n_cols n12
        \<and> 0 \<le> y \<and> y < int k)"

definition test_sample_ok ::
  "nat \<Rightarrow> nat \<Rightarrow> tensor \<Rightarrow> tensor \<Rightarrow> tensor \<times> tensor \<times> int \<Rightarrow> bool" where
  "test_sample_ok c0 c1 n00 n12 sample =
     (case sample of (x_0, x_1, y) \<Rightarrow>
        n_cols x_0 = c0 \<and> dtype x_0 = Float32 \<and> n_rows x_0 = n_cols n00
        \<and> n_cols x_1 = c1 \<and> dtype x_1 = Float32 \<and> n_rows x_1 = n_cols n12)"

text \<open>The epoch a printed line reports, if it is a loss and accuracy line.\<close>

fun epoch_of :: "line \<Rightarrow> int option" where
  "epoch_of (Epoch_line i l a) = Some i"
| "epoch_of (Test_line a) = None"

section \<open>The data of the notebooks\<close>



definition x_nodes :: tensor where
  "x_nodes = torch_tensor 2 [[1, 1], [2, 2], [1, 1]]"






text \<open>
  The ConvCXN notebook: \<^verbatim>\<open>CellComplex(edge_set + node_set + face_set)\<close>.
\<close>

definition cxn_edge_set :: "int list list" where
  "cxn_edge_set = [[1, 2], [1, 3], [2, 4], [3, 4], [4, 5], [1, 6]]"

definition node_set :: "int list" where
  "node_set = [1, 2, 3, 4, 5, 6]"

definition face_set :: "int list list" where
  "face_set = [[1, 2, 3, 4]]"

definition cxn_complex :: cell_complex where
  "cxn_complex = CellComplex (map Cell cxn_edge_set @ map Node node_set @ map Cell face_set)"

text \<open>
  The two neighborhood tensors of the ConvCXN notebook, from matrices of the library
  of element type \<open>d\<close>.
\<close>

definition incidence_2_t :: "dtype \<Rightarrow> (nat \<Rightarrow> nat \<Rightarrow> real) \<Rightarrow> tensor" where
  "incidence_2_t d val = convcxn_to_tensor (T (cc_incidence_matrix_2 d val cxn_complex))"

definition cxn_adjacency_0 :: "dtype \<Rightarrow> (nat \<Rightarrow> nat \<Rightarrow> real) \<Rightarrow> tensor" where
  "cxn_adjacency_0 d val = convcxn_to_tensor (cc_adjacency_matrix_0 d val cxn_complex)"

section \<open>The aggregation as the specification words it\<close>

text \<open>
  The specification's read-out aggregation for two classes. The mean of column \<open>j\<close>
  of logits with \<open>n\<close> rows is the sum of the entries \<open>(i, j)\<close> over the rows
  \<open>i < n\<close>, divided by \<open>n\<close>, and not a number when there is no row. Entry \<open>j\<close> of
  the prediction is the sum of the three means of column \<open>j\<close>, taken in the order in
  which the code adds them: faces, edges, nodes.
\<close>

definition mean_over_rows :: "tensor \<Rightarrow> nat \<Rightarrow> real option" where
  "mean_over_rows t j =
     (if n_rows t = 0 then None
      else Some ((\<Sum>i<n_rows t. entries t ! i ! j) / real (n_rows t)))"

definition sum_of_means :: "tensor \<Rightarrow> tensor \<Rightarrow> tensor \<Rightarrow> tensor1" where
  "sum_of_means l_0 l_1 l_2 =
     map (\<lambda>j. fadd (fadd (mean_over_rows l_2 j) (mean_over_rows l_1 j)) (mean_over_rows l_0 j))
         [0..<2]"

section \<open>One epoch as the specification words it\<close>

text \<open>
  One optimizer step for one sample: \<^verbatim>\<open>loss.backward(); opt.step()\<close> on the
  optimizer and the model as they are at that sample, giving the next optimizer and
  the model with the new values in its three read-outs. \<open>after_steps\<close> takes one
  such step per sample, in the order of the data set.
\<close>

definition optimizer_step ::
  "('w, 'o) torch_ops \<Rightarrow> tensor \<times> tensor \<times> int \<Rightarrow> 'o \<times> 'w ConvCXN \<Rightarrow> 'o \<times> 'w ConvCXN" where
  "optimizer_step ops sample om =
     (case sample of (x_0, x_1, y) \<Rightarrow>
        (case backward_step ops (fst om) (snd om) x_0 x_1 y of
           (opt', v0, v1, v2) \<Rightarrow>
             (opt', (snd om)\<lparr>lin_0 := set_values (lin_0 (snd om)) v0,
                               lin_1 := set_values (lin_1 (snd om)) v1,
                               lin_2 := set_values (lin_2 (snd om)) v2\<rparr>)))"

fun after_steps ::
  "('w, 'o) torch_ops \<Rightarrow> (tensor \<times> tensor \<times> int) list \<Rightarrow> 'o \<times> 'w ConvCXN \<Rightarrow> 'o \<times> 'w ConvCXN" where
  "after_steps ops [] om = om"
| "after_steps ops (sample # rest) om = after_steps ops rest (optimizer_step ops sample om)"

text \<open>
  The loss of one sample: the loss function on the forward pass of the model as it is
  at that sample, if both return. \<open>loss_trace\<close> lists the losses of the samples, each
  on the model the steps for the earlier samples have left.
\<close>

definition sample_loss ::
  "('w, 'o) torch_ops \<Rightarrow> 'w cxn_call \<Rightarrow> tensor \<Rightarrow> tensor \<Rightarrow> 'w ConvCXN \<Rightarrow>
   tensor \<times> tensor \<times> int \<Rightarrow> real option" where
  "sample_loss ops call adj inc m sample =
     (case sample of (x_0, x_1, y) \<Rightarrow>
        (case ConvCXN_forward call m (float x_0) (float x_1)
                (float adj) (float inc) of
           Inl e \<Rightarrow> None
         | Inr y_hat \<Rightarrow> (case crit ops y_hat y of Inl e \<Rightarrow> None | Inr loss \<Rightarrow> Some loss)))"

fun loss_trace ::
  "('w, 'o) torch_ops \<Rightarrow> 'w cxn_call \<Rightarrow> tensor \<Rightarrow> tensor \<Rightarrow>
   (tensor \<times> tensor \<times> int) list \<Rightarrow> 'o \<times> 'w ConvCXN \<Rightarrow> real option list" where
  "loss_trace ops call adj inc [] om = []"
| "loss_trace ops call adj inc (sample # rest) om =
     sample_loss ops call adj inc (snd om) sample
       # loss_trace ops call adj inc rest (optimizer_step ops sample om)"

section \<open>Concrete inputs\<close>

text \<open>
  A stand-in for the layer library's ConvCXN call that hands the signals on and gives
  the edge signal as the face signal, a tensor of one row, and initial values for the
  linear layers: every weight one, every bias zero.
\<close>

definition pass_through :: "unit cxn_call" where
  "pass_through layer x_0 x_1 n00 n12 = Inr (x_0, x_1, x_1)"

definition row_tensor :: "real list \<Rightarrow> tensor" where
  "row_tensor r = \<lparr>dtype = Float32, layout = Strided, n_cols = length r, entries = [r]\<rparr>"

definition ones :: "nat \<Rightarrow> nat \<Rightarrow> nat \<Rightarrow> real" where
  "ones r k j = 1"

definition zeros :: "nat \<Rightarrow> nat \<Rightarrow> real" where
  "zeros r k = 0"

text \<open>
  Stand-ins for the layer calls that return float32 tensors of the contract's shapes,
  filled with zeros; a stand-in with a state that counts the calls; a loss, an
  \<^verbatim>\<open>argmax\<close> and an optimizer step that leaves the values as they are.
\<close>

definition no_params :: "nat \<Rightarrow> unit" where
  "no_params k = ()"

definition zero_tensor :: "nat \<Rightarrow> nat \<Rightarrow> tensor" where
  "zero_tensor r c =
     \<lparr>dtype = Float32, layout = Strided, n_cols = c, entries = replicate r (replicate c 0)\<rparr>"


definition cxn_zero_call :: "unit cxn_call" where
  "cxn_zero_call layer x_0 x_1 n00 n12 =
     Inr (zero_tensor (n_rows n00) (in_channels_0 layer),
          zero_tensor (n_rows x_1) (in_channels_1 layer),
          zero_tensor (n_rows n12) (in_channels_2 layer))"

definition hsn_counting_call :: "(unit, nat) hsn_call_st" where
  "hsn_counting_call layer x i a s = (Inr x, Suc s)"

definition cxn_counting_call :: "(unit, nat) cxn_call_st" where
  "cxn_counting_call layer x_0 x_1 n00 n12 s = (Inr (x_0, x_1, x_1), Suc s)"


definition keep_ops :: "(unit, unit) torch_ops" where
  "keep_ops =
     \<lparr>crit = (\<lambda>v y. Inr 0),
      argmax = (\<lambda>v. Inr 0),
      backward_step = (\<lambda>optimizer m x_0 x_1 y.
         (optimizer, (weight (lin_0 m), bias (lin_0 m)), (weight (lin_1 m), bias (lin_1 m)),
          (weight (lin_2 m), bias (lin_2 m))))\<rparr>"

definition zero_val :: "nat \<Rightarrow> nat \<Rightarrow> real" where
  "zero_val i j = 0"

text \<open>
  Initial weights that differ from rank to rank and from class to class; signals of
  two and of three rows; constructors of the library that always return; and
  framework operations that leave a trace: the loss is the first entry of the
  prediction, and a step counts itself in the optimizer and adds one to every bias
  of \<^verbatim>\<open>lin_0\<close>.
\<close>

definition ramp :: "nat \<Rightarrow> nat \<Rightarrow> nat \<Rightarrow> real" where
  "ramp r k j = real (r + k + 1)"

definition two_rows :: tensor where
  "two_rows = torch_tensor 1 [[1], [3]]"

definition three_rows :: tensor where
  "three_rows = torch_tensor 1 [[2], [4], [6]]"




definition first_entry :: "tensor1 \<Rightarrow> real" where
  "first_entry v = (case v of Some r # _ \<Rightarrow> r | _ \<Rightarrow> 0)"

definition counting_ops :: "(unit, nat) torch_ops" where
  "counting_ops =
     \<lparr>crit = (\<lambda>v y. Inr (first_entry v)),
      argmax = (\<lambda>v. Inr 0),
      backward_step = (\<lambda>optimizer m x_0 x_1 y.
         (Suc optimizer, (weight (lin_0 m), map (\<lambda>b. b + 1) (bias (lin_0 m))),
          (weight (lin_1 m), bias (lin_1 m)), (weight (lin_2 m), bias (lin_2 m))))\<rparr>"

definition three_samples :: "(tensor \<times> tensor \<times> int) list" where
  "three_samples = zip3 [zero_tensor 6 4, zero_tensor 6 4, zero_tensor 6 4]
                        [zero_tensor 8 5, zero_tensor 8 5, zero_tensor 8 5] [0, 1, 1]"

definition train_100 :: "(tensor \<times> tensor \<times> int) list" where
  "train_100 = zip3 (replicate 100 (zero_tensor 6 4)) (replicate 100 (zero_tensor 8 5))
                    (replicate 100 1)"

definition test_10 :: "(tensor \<times> tensor \<times> int) list" where
  "test_10 = zip3 (replicate 10 (zero_tensor 6 4)) (replicate 10 (zero_tensor 8 5))
                  (replicate 10 0)"

definition start_state :: "unit ConvCXN \<Rightarrow> (unit, unit) cell_state" where
  "start_state m = \<lparr>model = m, opt = (), opt_steps = 0, epoch_loss = [], num_samples = 0,
                    correct = 0, printed = []\<rparr>"


section \<open>Properties of the forward pass of ConvCXN\<close>

lemma upt_2: "[0..<2] = [0, Suc 0]"
  by (simp add: upt_rec)

lemma Linear_forward_Inr:
  "Linear_forward l x = Inr y \<Longrightarrow>
   dtype y = Float32 \<and> n_cols y = out_features l \<and> n_rows y = n_rows x"
  by (auto simp: Linear_forward_def n_rows_def split: if_splits)

lemma dot_zeros: "dot (replicate n 0) v = 0"
proof (induction n arbitrary: v)
  case 0
  then show ?case by (simp add: dot_def)
next
  case (Suc n)
  then show ?case by (cases v) (simp_all add: dot_def)
qed



lemma ConvCXN_logits_dtype:
  assumes "ConvCXN_logits call self x_0 x_1 n00 n12 = Inr (l_0, l_1, l_2)"
  shows "dtype l_0 = Float32 \<and> dtype l_1 = Float32 \<and> dtype l_2 = Float32"
  using assms unfolding ConvCXN_logits_def
  by (auto split: sum.splits option.splits prod.splits dest!: Linear_forward_Inr)

text \<open>
  The mean the code takes of a column, a sum along the list of rows, is the mean as
  the specification words it, a sum over the row indices.
\<close>

lemma column_sum_over_rows:
  "sum_list (map (\<lambda>r. r ! j) es) = (\<Sum>i<length es. es ! i ! j)"
proof -
  have "sum_list (map (\<lambda>r. r ! j) es)
        = (\<Sum>i = 0..<length (map (\<lambda>r. r ! j) es). map (\<lambda>r. r ! j) es ! i)"
    by (rule sum_list_sum_nth)
  also have "\<dots> = (\<Sum>i<length es. es ! i ! j)"
    by (rule sum.cong) auto
  finally show ?thesis .
qed

lemma column_mean_spelled_out: "column_mean t j = mean_over_rows t j"
  by (simp add: column_mean_def mean_over_rows_def column_def n_rows_def column_sum_over_rows)

lemma aggregate_two_classes:
  assumes "dtype l_0 = Float32" "dtype l_1 = Float32" "dtype l_2 = Float32"
    and "n_cols l_0 = 2" "n_cols l_1 = 2" "n_cols l_2 = 2"
  shows "aggregate l_0 l_1 l_2 = Inr (sum_of_means l_0 l_1 l_2)"
  using assms
  by (simp add: aggregate_def mean_dim0_def tensor1_add_def sum_of_means_def upt_2
      column_mean_spelled_out)

text \<open>
  Claim C5. Whenever the three read-outs of \<^verbatim>\<open>ConvCXN.forward\<close> produce logits of
  shapes \<open>(n0, 2)\<close>, \<open>(n1, 2)\<close> and \<open>(n2, 2)\<close>, for any numbers of rows, the value
  returned is the element-wise sum of the three column means, each the sum of a column
  over the rows divided by the number of rows, and it is a tensor of two entries.
  (Over zero rows a mean is \<^verbatim>\<open>nan\<close>, on both sides.)
\<close>

theorem ConvCXN_forward_sum_of_means:
  assumes "ConvCXN_logits call self x_0 x_1 n00 n12 = Inr (l_0, l_1, l_2)"
    and "n_cols l_0 = 2" "n_cols l_1 = 2" "n_cols l_2 = 2"
  shows "ConvCXN_forward call self x_0 x_1 n00 n12 = Inr (sum_of_means l_0 l_1 l_2)
         \<and> length (sum_of_means l_0 l_1 l_2) = 2"
  using assms ConvCXN_logits_dtype [OF assms(1)] aggregate_two_classes [of l_0 l_1 l_2]
  by (simp add: ConvCXN_forward_def sum_of_means_def)

text \<open>
  With two rows of node logits \<open>[[1, 2], [3, 6]]\<close> and three rows of edge and of face
  logits, the column means are \<open>(2, 4)\<close>, \<open>(8, 12)\<close> and \<open>(12, 16)\<close>, and the
  prediction is \<open>(22, 32)\<close>; the column sums would give \<open>(64, 96)\<close>.
\<close>

theorem ConvCXN_forward_sum_of_means_witness:
  "ConvCXN_logits pass_through (ConvCXN_init no_params ramp zeros 1 1 1 2 1)
     two_rows three_rows (row_tensor [0]) (row_tensor [0])
   = Inr (torch_tensor 2 [[1, 2], [3, 6]],
          torch_tensor 2 [[4, 6], [8, 12], [12, 18]],
          torch_tensor 2 [[6, 8], [12, 16], [18, 24]])
   \<and> ConvCXN_forward pass_through (ConvCXN_init no_params ramp zeros 1 1 1 2 1)
       two_rows three_rows (row_tensor [0]) (row_tensor [0])
     = Inr [Some 22, Some 32]"
proof -
  let ?l_0 = "torch_tensor 2 [[1, 2], [3, 6]]"
  let ?l_1 = "torch_tensor 2 [[4, 6], [8, 12], [12, 18]]"
  let ?l_2 = "torch_tensor 2 [[6, 8], [12, 16], [18, 24]]"
  have logits:
    "ConvCXN_logits pass_through (ConvCXN_init no_params ramp zeros 1 1 1 2 1)
       two_rows three_rows (row_tensor [0]) (row_tensor [0]) = Inr (?l_0, ?l_1, ?l_2)"
    by (simp add: ConvCXN_logits_def ConvCXN_init_def pass_through_def two_rows_def
        three_rows_def torch_tensor_def Linear_forward_def Linear_def dot_def upt_2
        ramp_def zeros_def)
  have widths: "n_cols ?l_0 = 2" "n_cols ?l_1 = 2" "n_cols ?l_2 = 2"
    by (simp_all add: torch_tensor_def)
  have means: "sum_of_means ?l_0 ?l_1 ?l_2 = [Some 22, Some 32]"
    by (simp add: sum_of_means_def mean_over_rows_def torch_tensor_def n_rows_def upt_2
        fadd_def lessThan_Suc numeral_2_eq_2 numeral_3_eq_3)
  from ConvCXN_forward_sum_of_means [OF logits widths] means logits
  show ?thesis by simp
qed



lemma ConvCXN_forward_readout:
  "ConvCXN_forward call self x_0 x_1 n00 n12 =
     (case ConvCXN_loop call (cxn_layers self) n00 n12 x_0 x_1 None of
        Inl e \<Rightarrow> Inl e
      | Inr (y_0, y_1, y_2) \<Rightarrow> ConvCXN_readout self y_0 y_1 y_2)"
  by (simp add: ConvCXN_forward_def ConvCXN_logits_def ConvCXN_readout_def
      split: sum.splits prod.splits option.splits)






section \<open>Construction of the stacked classifiers\<close>



























section \<open>The parameters handed to the optimizer\<close>

lemma HSN_module_parameters:
  "parameters (HSN_module Layer n p) =
     [snd (make_layers Layer (nat n) [] p), snd (make_layers Layer (nat n) [] p) + 1]"
  by (simp add: HSN_module_def Linear_module_def setattr_def split: prod.splits)

lemma TemplateNN_module_parameters:
  "parameters (TemplateNN_module Layer n p) =
     [snd (make_layers Layer (nat n) [] p), snd (make_layers Layer (nat n) [] p) + 1]"
  by (simp add: TemplateNN_module_def Linear_module_def setattr_def split: prod.splits)

lemma ConvCXN_module_parameters:
  "parameters (ConvCXN_module Layer n p) =
     map (\<lambda>i. snd (make_layers Layer (nat n) [] p) + i) [0, 1, 2, 3, 4, 5]"
  by (simp add: ConvCXN_module_def Linear_module_def setattr_def split: prod.splits)

lemma make_layers_2:
  "make_layers Layer 2 [] p =
     (case Layer p of (l1, p1) \<Rightarrow> case Layer p1 of (l2, p2) \<Rightarrow> ([l1, l2], p2))"
  by (simp add: numeral_2_eq_2 split: prod.splits)

text \<open>
  Claim C1 fails on the code. Each class keeps its layers in a Python list, which the
  module registry does not see, so \<^verbatim>\<open>model.parameters()\<close> yields the parameters of
  the linear read-outs and nothing else: two for HSN and TemplateNN, six for ConvCXN,
  whatever the layers hold. With two layers of one weight each, numbered 0 and 1, the
  HSN model is the object below and the optimizer gets the parameters 2 and 3 only.
\<close>

theorem parameters_are_the_readouts_only:
  "length (parameters (HSN_module Layer n_layers p)) = 2
   \<and> length (parameters (TemplateNN_module Layer n_layers p)) = 2
   \<and> length (parameters (ConvCXN_module Layer n_layers p)) = 6
   \<and> HSN_module one_weight_layer 2 0 =
       Module [(''linear'', Module [(''weight'', Parameter 2), (''bias'', Parameter 3)]),
               (''layers'', PyList [Module [(''weight'', Parameter 0)],
                                    Module [(''weight'', Parameter 1)]])]
   \<and> parameters (HSN_module one_weight_layer 2 0) = [2, 3]
   \<and> parameters (TemplateNN_module one_weight_layer 2 0) = [2, 3]
   \<and> parameters (ConvCXN_module one_weight_layer 2 0) = [2, 3, 4, 5, 6, 7]"
proof -
  have general:
    "length (parameters (HSN_module Layer n_layers p)) = 2"
    "length (parameters (TemplateNN_module Layer n_layers p)) = 2"
    "length (parameters (ConvCXN_module Layer n_layers p)) = 6"
    by (simp_all add: HSN_module_parameters TemplateNN_module_parameters
        ConvCXN_module_parameters)
  have object:
    "HSN_module one_weight_layer 2 0 =
       Module [(''linear'', Module [(''weight'', Parameter 2), (''bias'', Parameter 3)]),
               (''layers'', PyList [Module [(''weight'', Parameter 0)],
                                    Module [(''weight'', Parameter 1)]])]"
    by (simp add: HSN_module_def make_layers_2 one_weight_layer_def Linear_module_def
        setattr_def)
  have handed:
    "parameters (HSN_module one_weight_layer 2 0) = [2, 3]"
    "parameters (TemplateNN_module one_weight_layer 2 0) = [2, 3]"
    "parameters (ConvCXN_module one_weight_layer 2 0) = [2, 3, 4, 5, 6, 7]"
    by (simp_all add: HSN_module_parameters TemplateNN_module_parameters
        ConvCXN_module_parameters make_layers_2 one_weight_layer_def)
  from general object handed show ?thesis by (intro conjI)
qed

section \<open>The domains of the two scenarios and the conversion to tensors\<close>

lemma shape_matrix: "shape (matrix d val r c) = (r, c)"
  by (simp add: shape_def matrix_def n_rows_def)


lemma shape_T: "shape (T m) = (n_cols m, n_rows m)"
  by (simp add: shape_def T_def n_rows_def)

lemma layout_matrix: "layout (matrix d val r c) = Scipy_sparse"
  by (simp add: matrix_def)





lemma convcxn_to_tensor_casts:
  "shape (convcxn_to_tensor m) = shape m \<and> dtype (convcxn_to_tensor m) = Float32"
  by (simp add: convcxn_to_tensor_def to_sparse_def from_numpy_def todense_def float_def
      shape_def n_rows_def)









lemma cxn_complex_cells:
  "cxn_complex =
     \<lparr>nodes = [1, 2, 3, 4, 5, 6],
      edges = [(1, 2), (1, 3), (2, 4), (3, 4), (4, 5), (1, 6), (2, 3), (4, 1)],
      cells = [[1, 2, 3, 4]]\<rparr>"
  unfolding cxn_complex_def cxn_edge_set_def node_set_def face_set_def by code_simp

lemma incidence_2_t_shape: "shape (incidence_2_t d val) = (1, 8)"
  by (simp add: incidence_2_t_def convcxn_to_tensor_casts shape_T cc_incidence_matrix_2_def
      cxn_complex_cells matrix_def n_rows_def)

lemma cxn_adjacency_0_shape: "shape (cxn_adjacency_0 d val) = (6, 6)"
  by (simp add: cxn_adjacency_0_def convcxn_to_tensor_casts cc_adjacency_matrix_0_def
      cxn_complex_cells shape_matrix)




text \<open>
  Claim C3 as it is worded fails on the first count: the 2-cell \<open>[1, 2, 3, 4]\<close>
  brings the edges \<open>(2, 3)\<close> and \<open>(4, 1)\<close> of its cycle, so the complex has eight
  edges, as the notebook's own output says, and the transposed incidence matrix is one
  by eight.
\<close>

theorem convcxn_complex_has_eight_edges:
  "length (edges cxn_complex) = 8
   \<and> length (edges cxn_complex) \<noteq> 6
   \<and> shape (incidence_2_t Float64 zero_val) = (1, 8)
   \<and> shape (incidence_2_t Float64 zero_val) \<noteq> (1, 6)"
  by (simp add: cxn_complex_cells incidence_2_t_shape)

section \<open>Shapes along the forward pass\<close>

lemma Linear_forward_ok:
  "n_cols x = in_features l \<Longrightarrow> dtype x = Float32 \<Longrightarrow>
   \<exists>y. Linear_forward l x = Inr y \<and> dtype y = Float32 \<and> n_cols y = out_features l
        \<and> n_rows y = n_rows x"
  by (simp add: Linear_forward_def n_rows_def)






lemma cxn_contractD:
  assumes "cxn_contract call n00 n12"
    and "n_cols x_0 = in_channels_0 layer" "dtype x_0 = Float32" "n_rows x_0 = n_cols n00"
    and "n_cols x_1 = in_channels_1 layer" "dtype x_1 = Float32" "n_rows x_1 = n_cols n12"
  shows "\<exists>y_0 y_1 y_2. call layer x_0 x_1 n00 n12 = Inr (y_0, y_1, y_2)
           \<and> n_cols y_0 = in_channels_0 layer \<and> dtype y_0 = Float32 \<and> n_rows y_0 = n_rows n00
           \<and> n_cols y_1 = in_channels_1 layer \<and> dtype y_1 = Float32 \<and> n_rows y_1 = n_rows x_1
           \<and> n_cols y_2 = in_channels_2 layer \<and> dtype y_2 = Float32 \<and> n_rows y_2 = n_rows n12"
  using assms(1) [unfolded cxn_contract_def, rule_format, of x_0 layer x_1] assms(2-) by simp

lemma ConvCXN_loop_ok:
  assumes c: "cxn_contract call n00 n12" and sq: "n_rows n00 = n_cols n00"
  shows "list_all (\<lambda>l. in_channels_0 l = c0 \<and> in_channels_1 l = c1 \<and> in_channels_2 l = c2) ls \<Longrightarrow>
     n_cols x_0 = c0 \<Longrightarrow> dtype x_0 = Float32 \<Longrightarrow> n_rows x_0 = n_cols n00 \<Longrightarrow>
     n_cols x_1 = c1 \<Longrightarrow> dtype x_1 = Float32 \<Longrightarrow> n_rows x_1 = n_cols n12 \<Longrightarrow>
     ls \<noteq> [] \<or> (\<exists>z. x_2 = Some z \<and> n_cols z = c2 \<and> dtype z = Float32) \<Longrightarrow>
     \<exists>y_0 y_1 y_2. ConvCXN_loop call ls n00 n12 x_0 x_1 x_2 = Inr (y_0, y_1, Some y_2)
        \<and> n_cols y_0 = c0 \<and> dtype y_0 = Float32
        \<and> n_cols y_1 = c1 \<and> dtype y_1 = Float32
        \<and> n_cols y_2 = c2 \<and> dtype y_2 = Float32"
proof (induction ls arbitrary: x_0 x_1 x_2)
  case Nil
  then show ?case by auto
next
  case (Cons l ls)
  from Cons.prems(1) have
    lc: "in_channels_0 l = c0" "in_channels_1 l = c1" "in_channels_2 l = c2"
    and rest: "list_all (\<lambda>l. in_channels_0 l = c0 \<and> in_channels_1 l = c1
                               \<and> in_channels_2 l = c2) ls"
    by simp_all
  from cxn_contractD [OF c, of x_0 l x_1] Cons.prems(2-7) lc obtain y_0 y_1 y_2 where
    y: "call l x_0 x_1 n00 n12 = Inr (y_0, y_1, y_2)"
       "n_cols y_0 = c0" "dtype y_0 = Float32" "n_rows y_0 = n_rows n00"
       "n_cols y_1 = c1" "dtype y_1 = Float32" "n_rows y_1 = n_rows x_1"
       "n_cols y_2 = c2" "dtype y_2 = Float32"
    by auto
  have r0: "n_rows y_0 = n_cols n00" using y(4) sq by simp
  have r1: "n_rows y_1 = n_cols n12" using y(7) Cons.prems(7) by simp
  have p2: "ls \<noteq> [] \<or> (\<exists>z. Some y_2 = Some z \<and> n_cols z = c2 \<and> dtype z = Float32)"
    using y(8,9) by simp
  from Cons.IH [OF rest y(2) y(3) r0 y(5) y(6) r1 p2] y(1) show ?case by simp
qed

lemma aggregate_ok:
  assumes "dtype a_0 = Float32" "dtype a_1 = Float32" "dtype a_2 = Float32"
    "n_cols a_0 = k" "n_cols a_1 = k" "n_cols a_2 = k"
  shows "\<exists>y. aggregate a_0 a_1 a_2 = Inr y \<and> length y = k"
  using assms by (simp add: aggregate_def mean_dim0_def tensor1_add_def)

lemma ConvCXN_forward_ok:
  assumes c: "cxn_contract call n00 n12" and sq: "n_rows n00 = n_cols n00"
    and ok: "ConvCXN_ok self c0 c1 c2 k"
    and x: "n_cols x_0 = c0" "dtype x_0 = Float32" "n_rows x_0 = n_cols n00"
       "n_cols x_1 = c1" "dtype x_1 = Float32" "n_rows x_1 = n_cols n12"
  shows "\<exists>y. ConvCXN_forward call self x_0 x_1 n00 n12 = Inr y \<and> length y = k"
proof -
  from ok have
    ls: "list_all (\<lambda>l. in_channels_0 l = c0 \<and> in_channels_1 l = c1 \<and> in_channels_2 l = c2)
           (cxn_layers self)"
    and ne: "cxn_layers self \<noteq> [] \<or> (\<exists>z. None = Some z \<and> n_cols z = c2 \<and> dtype z = Float32)"
    and lin: "in_features (lin_0 self) = c0" "in_features (lin_1 self) = c1"
      "in_features (lin_2 self) = c2" "out_features (lin_0 self) = k"
      "out_features (lin_1 self) = k" "out_features (lin_2 self) = k"
    by (simp_all add: ConvCXN_ok_def)
  from ConvCXN_loop_ok [OF c sq ls x ne] obtain y_0 y_1 y_2 where
    y: "ConvCXN_loop call (cxn_layers self) n00 n12 x_0 x_1 None = Inr (y_0, y_1, Some y_2)"
       "n_cols y_0 = c0" "dtype y_0 = Float32" "n_cols y_1 = c1" "dtype y_1 = Float32"
       "n_cols y_2 = c2" "dtype y_2 = Float32" by blast
  from Linear_forward_ok [of y_0 "lin_0 self"] y(2,3) lin obtain a_0 where
    a0: "Linear_forward (lin_0 self) y_0 = Inr a_0" "dtype a_0 = Float32" "n_cols a_0 = k"
    by auto
  from Linear_forward_ok [of y_1 "lin_1 self"] y(4,5) lin obtain a_1 where
    a1: "Linear_forward (lin_1 self) y_1 = Inr a_1" "dtype a_1 = Float32" "n_cols a_1 = k"
    by auto
  from Linear_forward_ok [of y_2 "lin_2 self"] y(6,7) lin obtain a_2 where
    a2: "Linear_forward (lin_2 self) y_2 = Inr a_2" "dtype a_2 = Float32" "n_cols a_2 = k"
    by auto
  from aggregate_ok [OF a0(2) a1(2) a2(2) a0(3) a1(3) a2(3)] obtain r where
    r: "aggregate a_0 a_1 a_2 = Inr r" "length r = k" by blast
  show ?thesis using y(1) a0(1) a1(1) a2(1) r
    by (simp add: ConvCXN_forward_def ConvCXN_logits_def)
qed

lemma ConvCXN_init_ok:
  "1 \<le> n_layers \<Longrightarrow>
   ConvCXN_ok (ConvCXN_init init w0 b0 c0 c1 c2 k n_layers) c0 c1 c2 k"
  by (simp add: ConvCXN_ok_def ConvCXN_init_def Linear_def list_all_iff)

section \<open>The passes over the training set and the test set\<close>

lemma float_id: "dtype t = Float32 \<Longrightarrow> float t = t"
  by (simp add: float_def)

lemma float_props:
  "dtype (float t) = Float32 \<and> n_cols (float t) = n_cols t \<and> n_rows (float t) = n_rows t"
  by (simp add: float_def n_rows_def)

lemma length_zip3:
  "length (zip3 xs ys zs) = min (length xs) (min (length ys) (length zs))"
  by (simp add: zip3_def)

lemma train_sample_counts:
  "train_sample ops call adj inc sample st = Inr st' \<Longrightarrow>
   num_samples st' = num_samples st + 1 \<and> length (epoch_loss st') = length (epoch_loss st) + 1
   \<and> opt_steps st' = opt_steps st + 1 \<and> printed st' = printed st"
  by (auto simp: train_sample_def split: prod.splits sum.splits)

lemma train_pass_counts:
  "train_pass ops call adj inc samples st = Inr st' \<Longrightarrow>
   num_samples st' = num_samples st + length samples
   \<and> length (epoch_loss st') = length (epoch_loss st) + length samples
   \<and> opt_steps st' = opt_steps st + length samples \<and> printed st' = printed st"
proof (induction samples arbitrary: st)
  case Nil
  then show ?case by simp
next
  case (Cons s samples)
  from Cons.prems obtain st1 where
    s1: "train_sample ops call adj inc s st = Inr st1"
    and r: "train_pass ops call adj inc samples st1 = Inr st'"
    by (auto split: sum.splits)
  from train_sample_counts [OF s1] Cons.IH [OF r] show ?case by simp
qed

lemma train_sample_ok:
  assumes c: "cxn_contract call adj inc" and sq: "n_rows adj = n_cols adj"
    and d: "dtype adj = Float32" "dtype inc = Float32"
    and o: "ops_contract ops" and k: "0 < k"
    and ok: "ConvCXN_ok (model st) c0 c1 c2 k"
    and s: "sample_ok c0 c1 k adj inc sample"
  shows "\<exists>st'. train_sample ops call adj inc sample st = Inr st'
               \<and> ConvCXN_ok (model st') c0 c1 c2 k"
proof -
  obtain x_0 x_1 y where sample: "sample = (x_0, x_1, y)" by (cases sample) auto
  from s sample have x: "n_cols x_0 = c0" "n_rows x_0 = n_cols adj" "n_cols x_1 = c1"
    "n_rows x_1 = n_cols inc" "0 \<le> y" "y < int k" by (simp_all add: sample_ok_def)
  have fx: "n_cols (float x_0) = c0" "dtype (float x_0) = Float32"
    "n_rows (float x_0) = n_cols adj"
    "n_cols (float x_1) = c1" "dtype (float x_1) = Float32"
    "n_rows (float x_1) = n_cols inc"
    using x float_props by simp_all
  from ConvCXN_forward_ok [OF c sq ok fx] obtain y_hat where
    yh: "ConvCXN_forward call (model st) (float x_0) (float x_1) adj inc = Inr y_hat"
        "length y_hat = k"
    by blast
  from o yh(2) x(5,6) obtain l where l: "crit ops y_hat y = Inr l"
    unfolding ops_contract_def by blast
  from o yh(2) k obtain j where j: "argmax ops y_hat = Inr j"
    unfolding ops_contract_def by (metis length_greater_0_conv)
  obtain o' v0 v1 v2 where
    b: "backward_step ops (opt st) (model st) x_0 x_1 y = (o', v0, v1, v2)"
    by (cases "backward_step ops (opt st) (model st) x_0 x_1 y") auto
  show ?thesis using sample yh l j b ok d
    by (simp add: train_sample_def float_id ConvCXN_ok_def set_values_def)
qed

lemma train_pass_ok:
  assumes c: "cxn_contract call adj inc" and sq: "n_rows adj = n_cols adj"
    and d: "dtype adj = Float32" "dtype inc = Float32"
    and o: "ops_contract ops" and k: "0 < k"
  shows "ConvCXN_ok (model st) c0 c1 c2 k \<Longrightarrow> list_all (sample_ok c0 c1 k adj inc) samples \<Longrightarrow>
    \<exists>st'. train_pass ops call adj inc samples st = Inr st' \<and> ConvCXN_ok (model st') c0 c1 c2 k"
proof (induction samples arbitrary: st)
  case Nil
  then show ?case by simp
next
  case (Cons s samples)
  from Cons.prems(2) have s: "sample_ok c0 c1 k adj inc s"
    and rest: "list_all (sample_ok c0 c1 k adj inc) samples" by simp_all
  from train_sample_ok [OF c sq d o k Cons.prems(1) s] obtain st1 where
    s1: "train_sample ops call adj inc s st = Inr st1" "ConvCXN_ok (model st1) c0 c1 c2 k"
    by blast
  from Cons.IH [OF s1(2) rest] s1(1) show ?case by simp
qed

lemma test_sample_frame:
  "test_sample ops call adj inc sample st = Inr st' \<Longrightarrow>
   model st' = model st \<and> opt st' = opt st \<and> opt_steps st' = opt_steps st
   \<and> epoch_loss st' = epoch_loss st \<and> printed st' = printed st
   \<and> num_samples st' = num_samples st + 1"
  by (auto simp: test_sample_def split: prod.splits sum.splits)

lemma test_pass_frame:
  "test_pass ops call adj inc samples st = Inr st' \<Longrightarrow>
   model st' = model st \<and> opt st' = opt st \<and> opt_steps st' = opt_steps st
   \<and> epoch_loss st' = epoch_loss st \<and> printed st' = printed st
   \<and> num_samples st' = num_samples st + length samples"
proof (induction samples arbitrary: st)
  case Nil
  then show ?case by simp
next
  case (Cons s samples)
  from Cons.prems obtain st1 where
    s1: "test_sample ops call adj inc s st = Inr st1"
    and r: "test_pass ops call adj inc samples st1 = Inr st'"
    by (auto split: sum.splits)
  from test_sample_frame [OF s1] Cons.IH [OF r] show ?case by simp
qed

lemma evaluation_frame:
  assumes "evaluation ops call adj inc test st = Inr st'"
  shows "model st' = model st \<and> opt st' = opt st \<and> opt_steps st' = opt_steps st
         \<and> epoch_loss st' = epoch_loss st \<and> (\<exists>a. printed st' = printed st @ [Test_line a])"
proof -
  from assms obtain st1 where
    p: "test_pass ops call adj inc test (st\<lparr>num_samples := 0, correct := 0\<rparr>) = Inr st1"
    and e: "st' = st1\<lparr>printed := printed st1 @
                      [Test_line (real (correct st1) / real (num_samples st1))]\<rparr>"
    by (auto simp: evaluation_def split: sum.splits if_splits)
  from test_pass_frame [OF p] e show ?thesis by simp
qed

lemma test_sample_succeeds:
  assumes c: "cxn_contract call adj inc" and sq: "n_rows adj = n_cols adj"
    and o: "ops_contract ops" and k: "0 < k"
    and ok: "ConvCXN_ok (model st) c0 c1 c2 k"
    and s: "test_sample_ok c0 c1 adj inc sample"
  shows "\<exists>st'. test_sample ops call adj inc sample st = Inr st'"
proof -
  obtain x_0 x_1 y where sample: "sample = (x_0, x_1, y)" by (cases sample) auto
  from s sample have x: "n_cols x_0 = c0" "dtype x_0 = Float32" "n_rows x_0 = n_cols adj"
    "n_cols x_1 = c1" "dtype x_1 = Float32" "n_rows x_1 = n_cols inc"
    by (simp_all add: test_sample_ok_def)
  from ConvCXN_forward_ok [OF c sq ok x] obtain y_hat where
    yh: "ConvCXN_forward call (model st) x_0 x_1 adj inc = Inr y_hat" "length y_hat = k"
    by blast
  from o yh(2) k obtain j where j: "argmax ops y_hat = Inr j"
    unfolding ops_contract_def by (metis length_greater_0_conv)
  show ?thesis using sample yh j by (simp add: test_sample_def)
qed

lemma test_pass_succeeds:
  assumes c: "cxn_contract call adj inc" and sq: "n_rows adj = n_cols adj"
    and o: "ops_contract ops" and k: "0 < k"
  shows "ConvCXN_ok (model st) c0 c1 c2 k \<Longrightarrow> list_all (test_sample_ok c0 c1 adj inc) samples \<Longrightarrow>
    \<exists>st'. test_pass ops call adj inc samples st = Inr st'"
proof (induction samples arbitrary: st)
  case Nil
  then show ?case by simp
next
  case (Cons s samples)
  from Cons.prems(2) have s: "test_sample_ok c0 c1 adj inc s"
    and rest: "list_all (test_sample_ok c0 c1 adj inc) samples" by simp_all
  from test_sample_succeeds [OF c sq o k Cons.prems(1) s] obtain st1 where
    s1: "test_sample ops call adj inc s st = Inr st1" by blast
  from test_sample_frame [OF s1] Cons.prems(1) have "ConvCXN_ok (model st1) c0 c1 c2 k"
    by simp
  from Cons.IH [OF this rest] s1 show ?case by simp
qed

lemma evaluation_succeeds:
  assumes c: "cxn_contract call adj inc" and sq: "n_rows adj = n_cols adj"
    and o: "ops_contract ops" and k: "0 < k"
    and ok: "ConvCXN_ok (model st) c0 c1 c2 k"
    and t: "list_all (test_sample_ok c0 c1 adj inc) test" "test \<noteq> []"
  shows "\<exists>st'. evaluation ops call adj inc test st = Inr st'"
proof -
  let ?st0 = "st\<lparr>num_samples := 0, correct := 0\<rparr>"
  have ok0: "ConvCXN_ok (model ?st0) c0 c1 c2 k" using ok by simp
  from test_pass_succeeds [OF c sq o k ok0 t(1)] obtain st1 where
    p: "test_pass ops call adj inc test ?st0 = Inr st1" by blast
  from test_pass_frame [OF p] t(2) have "num_samples st1 \<noteq> 0" by simp
  with p show ?thesis by (simp add: evaluation_def)
qed

lemma epoch_ok:
  assumes c: "cxn_contract call adj inc" and sq: "n_rows adj = n_cols adj"
    and d: "dtype adj = Float32" "dtype inc = Float32"
    and o: "ops_contract ops" and k: "0 < k"
    and ok: "ConvCXN_ok (model st) c0 c1 c2 k"
    and tr: "list_all (sample_ok c0 c1 k adj inc) train" "train \<noteq> []"
    and te: "list_all (test_sample_ok c0 c1 adj inc) test" "test \<noteq> []"
  shows "\<exists>st'. epoch ops call adj inc train test i st = Inr st'
           \<and> ConvCXN_ok (model st') c0 c1 c2 k
           \<and> map epoch_of (printed st') =
               map epoch_of (printed st) @ (if i mod 2 = 0 then [Some i, None] else [Some i])
           \<and> opt_steps st' = opt_steps st + length train"
proof -
  let ?st0 = "st\<lparr>epoch_loss := [], num_samples := 0, correct := 0\<rparr>"
  have ok0: "ConvCXN_ok (model ?st0) c0 c1 c2 k" using ok by simp
  from train_pass_ok [OF c sq d o k ok0 tr(1)] obtain st1 where
    p: "train_pass ops call adj inc train ?st0 = Inr st1" "ConvCXN_ok (model st1) c0 c1 c2 k"
    by blast
  from train_pass_counts [OF p(1)] have cnt: "num_samples st1 = length train"
    "opt_steps st1 = opt_steps st + length train" "printed st1 = printed st" by simp_all
  with tr(2) have nz: "num_samples st1 \<noteq> 0" by simp
  let ?st2 = "st1\<lparr>printed := printed st1 @
      [Epoch_line i (np_mean (epoch_loss st1)) (real (correct st1) / real (num_samples st1))]\<rparr>"
  show ?thesis
  proof (cases "i mod 2 = 0")
    case False
    then show ?thesis using p nz cnt by (simp add: epoch_def test_interval_def Let_def)
  next
    case True
    have ok2: "ConvCXN_ok (model ?st2) c0 c1 c2 k" using p(2) by simp
    from evaluation_succeeds [OF c sq o k ok2 te] obtain st3 where
      e: "evaluation ops call adj inc test ?st2 = Inr st3" by blast
    from evaluation_frame [OF e] obtain a where
      f: "model st3 = model st1" "opt_steps st3 = opt_steps st1"
         "printed st3 = printed st1 @
            [Epoch_line i (np_mean (epoch_loss st1))
               (real (correct st1) / real (num_samples st1)), Test_line a]"
      by auto
    show ?thesis using True p nz cnt e f by (simp add: epoch_def test_interval_def Let_def)
  qed
qed

lemma upto_1_3: "[1..3] = [1, 2, 3::int]"
  by (simp add: upto.simps)

lemma training_three_epochs:
  assumes c: "cxn_contract call adj inc" and sq: "n_rows adj = n_cols adj"
    and d: "dtype adj = Float32" "dtype inc = Float32"
    and o: "ops_contract ops" and k: "0 < k"
    and ok: "ConvCXN_ok m c0 c1 c2 k"
    and tr: "list_all (sample_ok c0 c1 k adj inc) train" "train \<noteq> []"
    and te: "list_all (test_sample_ok c0 c1 adj inc) test" "test \<noteq> []"
  shows "\<exists>st. training ops call adj inc train test 3 m optimizer = Inr st
           \<and> map epoch_of (printed st) = [Some 1, Some 2, None, Some 3]
           \<and> opt_steps st = 3 * length train"
proof -
  let ?st0 = "\<lparr>model = m, opt = optimizer, opt_steps = 0, epoch_loss = [], num_samples = 0,
        correct = 0, printed = []\<rparr>"
  have ok0: "ConvCXN_ok (model ?st0) c0 c1 c2 k" using ok by simp
  from epoch_ok [OF c sq d o k ok0 tr te, of 1] obtain st1 where
    e1: "epoch ops call adj inc train test 1 ?st0 = Inr st1" "ConvCXN_ok (model st1) c0 c1 c2 k"
        "map epoch_of (printed st1) = [Some 1]" "opt_steps st1 = length train" by auto
  from epoch_ok [OF c sq d o k e1(2) tr te, of 2] e1(3,4) obtain st2 where
    e2: "epoch ops call adj inc train test 2 st1 = Inr st2" "ConvCXN_ok (model st2) c0 c1 c2 k"
        "map epoch_of (printed st2) = [Some 1, Some 2, None]"
        "opt_steps st2 = 2 * length train" by auto
  from epoch_ok [OF c sq d o k e2(2) tr te, of 3] e2(3,4) obtain st3 where
    e3: "epoch ops call adj inc train test 3 st2 = Inr st3"
        "map epoch_of (printed st3) = [Some 1, Some 2, None, Some 3]"
        "opt_steps st3 = 3 * length train" by auto
  show ?thesis using e1(1) e2(1) e3 by (simp add: training_def upto_1_3)
qed

section \<open>The stand-ins meet the contracts\<close>

lemma zero_tensor_props:
  "n_rows (zero_tensor r c) = r \<and> n_cols (zero_tensor r c) = c
   \<and> dtype (zero_tensor r c) = Float32"
  by (simp add: zero_tensor_def n_rows_def)


lemma cxn_zero_call_contract: "cxn_contract cxn_zero_call n00 n12"
  by (simp add: cxn_contract_def cxn_zero_call_def zero_tensor_props)

lemma keep_ops_contract: "ops_contract keep_ops"
  by (simp add: ops_contract_def keep_ops_def)

lemma cxn_neighborhoods:
  "n_rows (cxn_adjacency_0 d v) = 6 \<and> n_cols (cxn_adjacency_0 d v) = 6
   \<and> dtype (cxn_adjacency_0 d v) = Float32
   \<and> n_rows (incidence_2_t d w) = 1 \<and> n_cols (incidence_2_t d w) = 8
   \<and> dtype (incidence_2_t d w) = Float32"
  using cxn_adjacency_0_shape [of d v] incidence_2_t_shape [of d w]
  by (simp add: shape_def cxn_adjacency_0_def incidence_2_t_def convcxn_to_tensor_casts)

lemma train_100_ok:
  "list_all (sample_ok 4 5 2 (cxn_adjacency_0 d v) (incidence_2_t d w)) train_100
   \<and> train_100 \<noteq> [] \<and> length train_100 = 100"
  by (simp add: train_100_def zip3_def zip_replicate list_all_iff sample_ok_def
      zero_tensor_props cxn_neighborhoods)

lemma test_10_ok:
  "list_all (test_sample_ok 4 5 (cxn_adjacency_0 d v) (incidence_2_t d w)) test_10
   \<and> test_10 \<noteq> [] \<and> length test_10 = 10"
  by (simp add: test_10_def zip3_def zip_replicate list_all_iff test_sample_ok_def
      zero_tensor_props cxn_neighborhoods)

section \<open>One training epoch\<close>

lemma train_sample_step:
  assumes "train_sample ops call adj inc sample st = Inr st'"
  shows "\<exists>loss. sample_loss ops call adj inc (model st) sample = Some loss
           \<and> epoch_loss st' = epoch_loss st @ [loss]"
    and "(opt st', model st') = optimizer_step ops sample (opt st, model st)"
  using assms
  by (auto simp: train_sample_def sample_loss_def optimizer_step_def
      split: prod.splits sum.splits)

lemma train_pass_steps:
  "train_pass ops call adj inc samples st = Inr st' \<Longrightarrow>
   map Some (epoch_loss st')
     = map Some (epoch_loss st) @ loss_trace ops call adj inc samples (opt st, model st)
   \<and> (opt st', model st') = after_steps ops samples (opt st, model st)"
proof (induction samples arbitrary: st)
  case Nil
  then show ?case by simp
next
  case (Cons s samples)
  from Cons.prems obtain st1 where
    s1: "train_sample ops call adj inc s st = Inr st1"
    and r: "train_pass ops call adj inc samples st1 = Inr st'"
    by (auto split: sum.splits)
  from train_sample_step [OF s1] obtain loss where
    loss: "sample_loss ops call adj inc (model st) s = Some loss"
    and acc: "epoch_loss st1 = epoch_loss st @ [loss]"
    and step: "(opt st1, model st1) = optimizer_step ops s (opt st, model st)"
    by blast
  from Cons.IH [OF r] loss acc step show ?case by simp
qed

text \<open>
  Claim C7. The samples of an epoch are the triples of
  \<^verbatim>\<open>zip(x_0_train, x_1_train, labels_train)\<close>, as many as the shortest of the three
  lists holds (100 in the notebook, where the three have 100). Whenever the pass over
  them completes:

  \<^item> \<^verbatim>\<open>epoch_loss\<close> is the list of the losses of the samples, in their order, the
    loss of each sample being the loss function on the forward pass of the model as
    the optimizer steps for the samples before it have left it: one entry per sample,
    none skipped;
  \<^item> the optimizer and the model after the pass are what one
    \<^verbatim>\<open>loss.backward(); opt.step()\<close> per sample, in their order, makes of the
    optimizer and the model before the pass: as many optimizer steps as samples;
  \<^item> \<^verbatim>\<open>num_samples\<close> is the number of samples, and so is the count of the calls
    of \<^verbatim>\<open>opt.step()\<close>.

  And the pass does complete when the libraries keep their contracts and the samples
  fit the complex.
\<close>

theorem train_pass_steps_on_every_sample:
  "(train_pass ops call adj inc (zip3 x_0_train x_1_train labels_train)
        (st\<lparr>epoch_loss := [], num_samples := 0, correct := 0\<rparr>) = Inr st'
      \<longrightarrow> map Some (epoch_loss st')
            = loss_trace ops call adj inc (zip3 x_0_train x_1_train labels_train)
                (opt st, model st)
          \<and> (opt st', model st')
            = after_steps ops (zip3 x_0_train x_1_train labels_train) (opt st, model st)
          \<and> length (epoch_loss st')
            = min (length x_0_train) (min (length x_1_train) (length labels_train))
          \<and> num_samples st'
            = min (length x_0_train) (min (length x_1_train) (length labels_train))
          \<and> opt_steps st'
            = opt_steps st + min (length x_0_train) (min (length x_1_train) (length labels_train)))
   \<and> (cxn_contract call adj inc \<and> n_rows adj = n_cols adj \<and> dtype adj = Float32
        \<and> dtype inc = Float32 \<and> ops_contract ops \<and> 0 < k \<and> ConvCXN_ok (model st) c0 c1 c2 k
        \<and> list_all (sample_ok c0 c1 k adj inc) (zip3 x_0_train x_1_train labels_train)
      \<longrightarrow> (\<exists>st1. train_pass ops call adj inc (zip3 x_0_train x_1_train labels_train)
                   (st\<lparr>epoch_loss := [], num_samples := 0, correct := 0\<rparr>) = Inr st1))"
proof (intro conjI impI)
  let ?st0 = "st\<lparr>epoch_loss := [], num_samples := 0, correct := 0\<rparr>"
  let ?samples = "zip3 x_0_train x_1_train labels_train"
  assume finished: "train_pass ops call adj inc ?samples ?st0 = Inr st'"
  from train_pass_steps [OF finished]
  show "map Some (epoch_loss st') = loss_trace ops call adj inc ?samples (opt st, model st)"
    and "(opt st', model st') = after_steps ops ?samples (opt st, model st)"
    by simp_all
  from train_pass_counts [OF finished]
  show "length (epoch_loss st')
          = min (length x_0_train) (min (length x_1_train) (length labels_train))"
    and "num_samples st'
          = min (length x_0_train) (min (length x_1_train) (length labels_train))"
    and "opt_steps st'
          = opt_steps st + min (length x_0_train) (min (length x_1_train) (length labels_train))"
    by (simp_all add: length_zip3)
next
  let ?st0 = "st\<lparr>epoch_loss := [], num_samples := 0, correct := 0\<rparr>"
  assume h: "cxn_contract call adj inc \<and> n_rows adj = n_cols adj \<and> dtype adj = Float32
        \<and> dtype inc = Float32 \<and> ops_contract ops \<and> 0 < k \<and> ConvCXN_ok (model st) c0 c1 c2 k
        \<and> list_all (sample_ok c0 c1 k adj inc) (zip3 x_0_train x_1_train labels_train)"
  then have ok0: "ConvCXN_ok (model ?st0) c0 c1 c2 k" by simp
  from h train_pass_ok [of call adj inc ops k ?st0 c0 c1 c2, OF _ _ _ _ _ _ ok0]
  show "\<exists>st1. train_pass ops call adj inc (zip3 x_0_train x_1_train labels_train) ?st0 = Inr st1"
    by blast
qed

lemma counting_ops_contract: "ops_contract counting_ops"
  by (simp add: ops_contract_def counting_ops_def)

lemma three_samples_ok:
  "list_all (sample_ok 4 5 2 (cxn_adjacency_0 d v) (incidence_2_t d w)) three_samples"
  by (simp add: three_samples_def zip3_def sample_ok_def zero_tensor_props cxn_neighborhoods)

text \<open>
  A layer library that returns zeros, so that the prediction is the sum of the three
  biases; a loss that reads the first entry of the prediction; an optimizer that counts
  its steps and adds one to each bias of \<^verbatim>\<open>lin_0\<close> at every step. The three
  losses then show the steps taken before each sample.
\<close>

lemma zero_call_prediction:
  assumes "n_rows adj = 6" "n_rows inc = 1"
  shows "ConvCXN_forward cxn_zero_call
           \<lparr>cxn_layers = [\<lparr>in_channels_0 = 4, in_channels_1 = 5, in_channels_2 = 5,
                            cxn_params = ()\<rparr>,
                          \<lparr>in_channels_0 = 4, in_channels_1 = 5, in_channels_2 = 5,
                            cxn_params = ()\<rparr>],
            lin_0 = \<lparr>in_features = 4, out_features = 2, weight = w_0, bias = [a, a']\<rparr>,
            lin_1 = \<lparr>in_features = 5, out_features = 2, weight = w_1, bias = [0, 0]\<rparr>,
            lin_2 = \<lparr>in_features = 5, out_features = 2, weight = w_2, bias = [0, 0]\<rparr>\<rparr>
           (float (zero_tensor 6 4)) (float (zero_tensor 8 5)) (float adj) (float inc)
         = Inr [Some a, Some a']"
  using assms
  by (simp add: ConvCXN_forward_def ConvCXN_logits_def cxn_zero_call_def float_props
      zero_tensor_props Linear_forward_def zero_tensor_def float_def dot_zeros upt_2
      aggregate_def mean_dim0_def tensor1_add_def column_mean_def column_def fadd_def
      n_rows_def sum_list_replicate)

theorem train_pass_steps_on_every_sample_witness:
  "\<exists>st1. train_pass counting_ops cxn_zero_call (cxn_adjacency_0 Float64 zero_val)
            (incidence_2_t Float64 zero_val) three_samples
            \<lparr>model = ConvCXN_init no_params ones zeros 4 5 5 2 2, opt = 0, opt_steps = 0,
             epoch_loss = [], num_samples = 0, correct = 0, printed = []\<rparr> = Inr st1
          \<and> epoch_loss st1 = [0, 1, 2] \<and> opt st1 = 3 \<and> bias (lin_0 (model st1)) = [3, 3]
          \<and> num_samples st1 = 3 \<and> opt_steps st1 = 3"
proof -
  let ?adj = "cxn_adjacency_0 Float64 zero_val"
  let ?inc = "incidence_2_t Float64 zero_val"
  let ?m = "ConvCXN_init no_params ones zeros 4 5 5 2 2"
  let ?st0 = "\<lparr>model = ?m, opt = 0::nat, opt_steps = 0, epoch_loss = [], num_samples = 0,
               correct = 0, printed = []\<rparr>"
  let ?x_0 = "[zero_tensor 6 4, zero_tensor 6 4, zero_tensor 6 4]"
  let ?x_1 = "[zero_tensor 8 5, zero_tensor 8 5, zero_tensor 8 5]"
  have samples: "zip3 ?x_0 ?x_1 [0, 1, 1] = three_samples"
    by (simp add: three_samples_def)
  have st0: "?st0\<lparr>epoch_loss := [], num_samples := 0, correct := 0\<rparr> = ?st0"
    by simp
  have rows: "n_rows ?adj = 6" "n_rows ?inc = 1"
    by (simp_all add: cxn_neighborhoods)
  have hyps: "cxn_contract cxn_zero_call ?adj ?inc \<and> n_rows ?adj = n_cols ?adj
        \<and> dtype ?adj = Float32 \<and> dtype ?inc = Float32 \<and> ops_contract counting_ops
        \<and> 0 < (2::nat) \<and> ConvCXN_ok (model ?st0) 4 5 5 2
        \<and> list_all (sample_ok 4 5 2 ?adj ?inc) (zip3 ?x_0 ?x_1 [0, 1, 1])"
    using three_samples_ok [of Float64 zero_val zero_val]
      ConvCXN_init_ok [of 2 no_params ones zeros 4 5 5 2]
    by (simp add: cxn_zero_call_contract counting_ops_contract cxn_neighborhoods samples)
  note inst = train_pass_steps_on_every_sample
    [of counting_ops cxn_zero_call ?adj ?inc ?x_0 ?x_1 "[0, 1, 1]" ?st0 _ 2 4 5 5]
  from inst hyps st0 samples
  obtain st1 where
    r: "train_pass counting_ops cxn_zero_call ?adj ?inc three_samples ?st0 = Inr st1"
    by auto
  have model: "?m =
      \<lparr>cxn_layers = [\<lparr>in_channels_0 = 4, in_channels_1 = 5, in_channels_2 = 5, cxn_params = ()\<rparr>,
                     \<lparr>in_channels_0 = 4, in_channels_1 = 5, in_channels_2 = 5, cxn_params = ()\<rparr>],
       lin_0 = \<lparr>in_features = 4, out_features = 2, weight = weight (lin_0 ?m), bias = [0, 0]\<rparr>,
       lin_1 = \<lparr>in_features = 5, out_features = 2, weight = weight (lin_1 ?m), bias = [0, 0]\<rparr>,
       lin_2 = \<lparr>in_features = 5, out_features = 2, weight = weight (lin_2 ?m), bias = [0, 0]\<rparr>\<rparr>"
    by (simp add: ConvCXN_init_def Linear_def upt_2 zeros_def no_params_def numeral_2_eq_2)
  have trace: "loss_trace counting_ops cxn_zero_call ?adj ?inc three_samples (0, ?m)
               = [Some 0, Some 1, Some 2]"
    apply (subst model)
    apply (simp add: three_samples_def zip3_def sample_loss_def optimizer_step_def
        counting_ops_def set_values_def first_entry_def zero_call_prediction [OF rows])
    done
  have steps: "fst (after_steps counting_ops three_samples (0, ?m)) = 3"
    "bias (lin_0 (snd (after_steps counting_ops three_samples (0, ?m)))) = [3, 3]"
    by (simp_all add: three_samples_def zip3_def optimizer_step_def counting_ops_def
        set_values_def ConvCXN_init_def Linear_def upt_2 zeros_def)
  from train_pass_steps_on_every_sample
    [of counting_ops cxn_zero_call ?adj ?inc ?x_0 ?x_1 "[0, 1, 1]" ?st0 st1 2 4 5 5]
    r st0 samples
  have out: "map Some (epoch_loss st1)
               = loss_trace counting_ops cxn_zero_call ?adj ?inc three_samples (0, ?m)"
    and om: "(opt st1, model st1) = after_steps counting_ops three_samples (0, ?m)"
    and counts: "num_samples st1 = 3" "opt_steps st1 = 3"
    by simp_all
  from out trace have "map Some (epoch_loss st1) = map Some [0, 1, 2]" by simp
  then have losses: "epoch_loss st1 = [0, 1, 2]"
    by (simp only: map_eq_conv inj_map_eq_map [OF inj_Some])
  from om have "opt st1 = fst (after_steps counting_ops three_samples (0, ?m))"
    and "model st1 = snd (after_steps counting_ops three_samples (0, ?m))"
    by (metis fst_conv, metis snd_conv)
  with steps have "opt st1 = 3" and "bias (lin_0 (model st1)) = [3, 3]"
    by simp_all
  with r losses counts show ?thesis by blast
qed

section \<open>The evaluation phase\<close>

text \<open>
  Claim C8. Whenever the evaluation phase completes, the model, with every weight and
  bias in it, and the optimizer are what they were before it, and \<^verbatim>\<open>opt.step()\<close>
  has not run; and the phase does complete when the libraries keep their contracts and
  the test set is non-empty and fits the complex.
\<close>

theorem evaluation_keeps_parameters:
  "(evaluation ops call adj inc (zip3 x_0_test x_1_test labels_test) st = Inr st'
      \<longrightarrow> model st' = model st \<and> opt st' = opt st \<and> opt_steps st' = opt_steps st)
   \<and> (cxn_contract call adj inc \<and> n_rows adj = n_cols adj \<and> ops_contract ops \<and> 0 < k
        \<and> ConvCXN_ok (model st) c0 c1 c2 k
        \<and> list_all (test_sample_ok c0 c1 adj inc) (zip3 x_0_test x_1_test labels_test)
        \<and> zip3 x_0_test x_1_test labels_test \<noteq> []
      \<longrightarrow> (\<exists>st1. evaluation ops call adj inc (zip3 x_0_test x_1_test labels_test) st = Inr st1))"
  using evaluation_frame [of ops call adj inc "zip3 x_0_test x_1_test labels_test" st st']
    evaluation_succeeds [of call adj inc ops k st c0 c1 c2 "zip3 x_0_test x_1_test labels_test"]
  by blast

theorem evaluation_keeps_parameters_witness:
  "\<exists>st1. evaluation keep_ops cxn_zero_call (cxn_adjacency_0 Float64 zero_val)
            (incidence_2_t Float64 zero_val)
            (zip3 (replicate 10 (zero_tensor 6 4)) (replicate 10 (zero_tensor 8 5))
                  (replicate 10 0))
            (start_state (ConvCXN_init no_params ones zeros 4 5 5 2 2)) = Inr st1
          \<and> model st1 = ConvCXN_init no_params ones zeros 4 5 5 2 2 \<and> opt_steps st1 = 0"
proof -
  let ?adj = "cxn_adjacency_0 Float64 zero_val"
  let ?inc = "incidence_2_t Float64 zero_val"
  let ?m = "ConvCXN_init no_params ones zeros 4 5 5 2 2"
  let ?samples = "zip3 (replicate 10 (zero_tensor 6 4)) (replicate 10 (zero_tensor 8 5))
                       (replicate 10 (0::int))"
  have hyps: "cxn_contract cxn_zero_call ?adj ?inc \<and> n_rows ?adj = n_cols ?adj
        \<and> ops_contract keep_ops \<and> 0 < (2::nat)
        \<and> ConvCXN_ok (model (start_state ?m)) 4 5 5 2
        \<and> list_all (test_sample_ok 4 5 ?adj ?inc) ?samples \<and> ?samples \<noteq> []"
    using test_10_ok [of Float64 zero_val zero_val] ConvCXN_init_ok [of 2 no_params ones zeros 4 5 5 2]
    by (simp add: cxn_zero_call_contract keep_ops_contract cxn_neighborhoods start_state_def
        test_10_def)
  from evaluation_keeps_parameters
    [of keep_ops cxn_zero_call ?adj ?inc "replicate 10 (zero_tensor 6 4)"
        "replicate 10 (zero_tensor 8 5)" "replicate 10 0" "start_state ?m" _ 2 4 5 5]
    hyps
  obtain st1 where
    r: "evaluation keep_ops cxn_zero_call ?adj ?inc ?samples (start_state ?m) = Inr st1"
    by auto
  from evaluation_keeps_parameters
    [of keep_ops cxn_zero_call ?adj ?inc "replicate 10 (zero_tensor 6 4)"
        "replicate 10 (zero_tensor 8 5)" "replicate 10 0" "start_state ?m" st1 2 4 5 5]
    r
  have "model st1 = ?m \<and> opt_steps st1 = 0"
    by (simp add: start_state_def)
  with r show ?thesis by blast
qed

section \<open>The two scenarios end to end\<close>

text \<open>
  Claim C3, as the code has it. The complex built from the six listed edges, the six
  nodes and the face \<open>[1, 2, 3, 4]\<close> has six nodes, eight edges and one 2-cell; the
  transposed incidence tensor has shape \<open>(1, 8)\<close> and the adjacency tensor shape
  \<open>(6, 6)\<close>. With the libraries keeping their contracts, a non-empty training set
  and a non-empty test set that fit the complex, three epochs of the two-layer model
  complete and print the lines of epoch 1, of epoch 2, a test line, and the line of
  epoch 3, taking one optimizer step per training sample and epoch.
\<close>

theorem convcxn_scenario:
  assumes "cxn_contract call (cxn_adjacency_0 d v0) (incidence_2_t d v2)"
    and "ops_contract ops"
    and "list_all (sample_ok 4 5 2 (cxn_adjacency_0 d v0) (incidence_2_t d v2)) train"
    and "train \<noteq> []"
    and "list_all (test_sample_ok 4 5 (cxn_adjacency_0 d v0) (incidence_2_t d v2)) test"
    and "test \<noteq> []"
  shows "length (nodes cxn_complex) = 6 \<and> length (edges cxn_complex) = 8
     \<and> length (cells cxn_complex) = 1
     \<and> shape (incidence_2_t d v2) = (1, 8) \<and> shape (cxn_adjacency_0 d v0) = (6, 6)
     \<and> (\<exists>st. training ops call (cxn_adjacency_0 d v0) (incidence_2_t d v2) train test 3
                (ConvCXN_init init w0 b0 4 5 5 2 2) optimizer = Inr st
              \<and> map epoch_of (printed st) = [Some 1, Some 2, None, Some 3]
              \<and> opt_steps st = 3 * length train)"
proof -
  have n: "n_rows (cxn_adjacency_0 d v0) = n_cols (cxn_adjacency_0 d v0)"
    "dtype (cxn_adjacency_0 d v0) = Float32" "dtype (incidence_2_t d v2) = Float32"
    by (simp_all add: cxn_neighborhoods)
  have ok: "ConvCXN_ok (ConvCXN_init init w0 b0 4 5 5 2 2) 4 5 5 2"
    by (rule ConvCXN_init_ok) simp
  have k: "0 < (2::nat)" by simp
  from training_three_epochs [OF assms(1) n assms(2) k ok assms(3,4,5,6), of optimizer]
  show ?thesis
    by (simp add: cxn_complex_cells incidence_2_t_shape cxn_adjacency_0_shape)
qed

theorem convcxn_scenario_witness:
  "\<exists>st. training keep_ops cxn_zero_call (cxn_adjacency_0 Float64 zero_val)
           (incidence_2_t Float64 zero_val) train_100 test_10 3
           (ConvCXN_init no_params ones zeros 4 5 5 2 2) () = Inr st
         \<and> map epoch_of (printed st) = [Some 1, Some 2, None, Some 3]
         \<and> opt_steps st = 300"
  using convcxn_scenario [of cxn_zero_call Float64 zero_val zero_val keep_ops train_100 test_10
      no_params ones zeros "()"]
    train_100_ok [of Float64 zero_val zero_val] test_10_ok [of Float64 zero_val zero_val]
  by (simp add: cxn_zero_call_contract keep_ops_contract)



section \<open>Determinism of the forward pass\<close>

lemma HSN_loop_st_deterministic:
  assumes "hsn_call_deterministic call"
  shows "fst (HSN_loop_st call ls inc adj x s) = fst (HSN_loop_st call ls inc adj x s')"
proof (induction ls arbitrary: x s s')
  case Nil
  show ?case by simp
next
  case (Cons l ls)
  obtain r s1 where a: "call l x inc adj s = (r, s1)"
    by (cases "call l x inc adj s") auto
  obtain r' s1' where b: "call l x inc adj s' = (r', s1')"
    by (cases "call l x inc adj s'") auto
  from assms a b have rr: "r' = r"
    unfolding hsn_call_deterministic_def by (metis fst_conv)
  show ?case
  proof (cases r)
    case (Inl e)
    with a b rr show ?thesis by simp
  next
    case (Inr y)
    with a b rr Cons.IH [of y s1 s1'] show ?thesis by simp
  qed
qed

lemma HSN_forward_st_deterministic:
  assumes "hsn_call_deterministic call"
  shows "fst (HSN_forward_st call self x inc adj s) = fst (HSN_forward_st call self x inc adj s')"
  using HSN_loop_st_deterministic [OF assms, of "hsn_layers self" inc adj x s s']
  by (auto simp: HSN_forward_st_def split: prod.splits sum.splits)

lemma ConvCXN_loop_st_deterministic:
  assumes "cxn_call_deterministic call"
  shows "fst (ConvCXN_loop_st call ls n00 n12 x_0 x_1 x_2 s)
       = fst (ConvCXN_loop_st call ls n00 n12 x_0 x_1 x_2 s')"
proof (induction ls arbitrary: x_0 x_1 x_2 s s')
  case Nil
  show ?case by simp
next
  case (Cons l ls)
  obtain r s1 where a: "call l x_0 x_1 n00 n12 s = (r, s1)"
    by (cases "call l x_0 x_1 n00 n12 s") auto
  obtain r' s1' where b: "call l x_0 x_1 n00 n12 s' = (r', s1')"
    by (cases "call l x_0 x_1 n00 n12 s'") auto
  from assms a b have rr: "r' = r"
    unfolding cxn_call_deterministic_def by (metis fst_conv)
  show ?case
  proof (cases r)
    case (Inl e)
    with a b rr show ?thesis by simp
  next
    case (Inr y)
    obtain y_0 y_1 y_2 where "y = (y_0, y_1, y_2)" by (cases y) auto
    with Inr a b rr Cons.IH [of y_0 y_1 "Some y_2" s1 s1'] show ?thesis by simp
  qed
qed

lemma ConvCXN_forward_st_deterministic:
  assumes "cxn_call_deterministic call"
  shows "fst (ConvCXN_forward_st call self x_0 x_1 n00 n12 s)
       = fst (ConvCXN_forward_st call self x_0 x_1 n00 n12 s')"
  using ConvCXN_loop_st_deterministic [OF assms, of "cxn_layers self" n00 n12 x_0 x_1 None s s']
  by (auto simp: ConvCXN_forward_st_def split: prod.splits sum.splits)

text \<open>
  With a layer call that has no state, the forward pass with state is the forward pass
  of the sections above.
\<close>

lemma HSN_loop_st_pure:
  "HSN_loop_st (\<lambda>l x i a s. (call l x i a, s)) ls inc adj x s = (HSN_loop call ls inc adj x, s)"
  by (induction ls arbitrary: x) (auto split: sum.splits)

lemma HSN_forward_st_pure:
  "HSN_forward_st (\<lambda>l x i a s. (call l x i a, s)) self x inc adj s
   = (HSN_forward call self x inc adj, s)"
  by (simp add: HSN_forward_st_def HSN_forward_def HSN_loop_st_pure split: sum.splits)

lemma ConvCXN_loop_st_pure:
  "ConvCXN_loop_st (\<lambda>l x_0 x_1 n00 n12 s. (call l x_0 x_1 n00 n12, s)) ls n00 n12 x_0 x_1 x_2 s
   = (ConvCXN_loop call ls n00 n12 x_0 x_1 x_2, s)"
  by (induction ls arbitrary: x_0 x_1 x_2) (auto split: sum.splits)

lemma ConvCXN_forward_st_pure:
  "ConvCXN_forward_st (\<lambda>l x_0 x_1 n00 n12 s. (call l x_0 x_1 n00 n12, s)) self x_0 x_1 n00 n12 s
   = (ConvCXN_forward call self x_0 x_1 n00 n12, s)"
  by (simp add: ConvCXN_forward_st_def ConvCXN_forward_readout ConvCXN_loop_st_pure
      split: sum.splits prod.splits)

text \<open>
  Claim C9. With a layer library whose call returns the same result in every state of
  the library, the second of two consecutive calls of \<^verbatim>\<open>forward\<close>, on the same
  model, signals and neighborhoods, returns what the first returned, for HSN and for
  ConvCXN: the result, value or exception, is a function of the parameters, the
  signals and the neighborhoods. (Entries are real numbers here; the rounding of the
  platform is outside the model.)
\<close>

theorem forward_twice_same_output:
  assumes "hsn_call_deterministic hcall" and "cxn_call_deterministic ccall"
  shows "fst (HSN_forward_st hcall hsn x inc adj (snd (HSN_forward_st hcall hsn x inc adj s)))
           = fst (HSN_forward_st hcall hsn x inc adj s)
       \<and> fst (ConvCXN_forward_st ccall cxn x_0 x_1 n00 n12
                (snd (ConvCXN_forward_st ccall cxn x_0 x_1 n00 n12 t)))
           = fst (ConvCXN_forward_st ccall cxn x_0 x_1 n00 n12 t)"
  using HSN_forward_st_deterministic [OF assms(1)] ConvCXN_forward_st_deterministic [OF assms(2)]
  by blast

theorem forward_twice_same_output_witness:
  "fst (HSN_forward_st hsn_counting_call (HSN_init no_params (ones 0) (zeros 0) 2 2)
          x_nodes (row_tensor [0]) (row_tensor [0])
          (snd (HSN_forward_st hsn_counting_call (HSN_init no_params (ones 0) (zeros 0) 2 2)
                  x_nodes (row_tensor [0]) (row_tensor [0]) 0)))
     = fst (HSN_forward_st hsn_counting_call (HSN_init no_params (ones 0) (zeros 0) 2 2)
              x_nodes (row_tensor [0]) (row_tensor [0]) 0)
   \<and> fst (ConvCXN_forward_st cxn_counting_call (ConvCXN_init no_params ones zeros 1 1 1 2 1)
            (row_tensor [1]) (row_tensor [2]) (row_tensor [0]) (row_tensor [0])
            (snd (ConvCXN_forward_st cxn_counting_call
                    (ConvCXN_init no_params ones zeros 1 1 1 2 1)
                    (row_tensor [1]) (row_tensor [2]) (row_tensor [0]) (row_tensor [0]) 0)))
     = fst (ConvCXN_forward_st cxn_counting_call (ConvCXN_init no_params ones zeros 1 1 1 2 1)
              (row_tensor [1]) (row_tensor [2]) (row_tensor [0]) (row_tensor [0]) 0)"
  using forward_twice_same_output [of hsn_counting_call cxn_counting_call
      "HSN_init no_params (ones 0) (zeros 0) 2 2" x_nodes "row_tensor [0]" "row_tensor [0]" 0
      "ConvCXN_init no_params ones zeros 1 1 1 2 1" "row_tensor [1]" "row_tensor [2]"
      "row_tensor [0]" "row_tensor [0]" 0]
  by (simp add: hsn_call_deterministic_def cxn_call_deterministic_def hsn_counting_call_def
      cxn_counting_call_def)

end
